theory Spec2Isabelle
  imports Complex_Main
begin

section \<open>Numbers of the source language\<close>

text \<open>
  A number of the source is an IEEE double. The handlers below compute with integers
  only, so a finite number is modelled by the integer it denotes, which is always one
  that a double represents; the two infinities and NaN are values of their own. An
  integer is exact up to \<open>2^53\<close>; beyond that it is rounded to 53 significant bits,
  to the nearest representable value, a tie going to the even significand, and a
  result of \<open>2^1024\<close> or more is an infinity.
\<close>

datatype jsNumber = Num int | PosInfinity | NegInfinity | NaN

function bitLength :: "nat \<Rightarrow> nat" where
  "bitLength n = (if n = 0 then 0 else Suc (bitLength (n div 2)))"
  by pat_completeness auto
termination
  by (relation "measure id") auto

declare bitLength.simps [simp del]

definition roundMagnitude :: "nat \<Rightarrow> nat" where
  "roundMagnitude n =
     (if n \<le> 2 ^ 53 then n
      else (let e = bitLength n - 53;
                q = n div 2 ^ e;
                r = n mod 2 ^ e;
                half = 2 ^ (e - 1)
            in if r > half \<or> (r = half \<and> odd q) then (q + 1) * 2 ^ e else q * 2 ^ e))"

text \<open>The number that an exact integer result becomes.\<close>

definition toNumber :: "int \<Rightarrow> jsNumber" where
  "toNumber i =
     (let m = roundMagnitude (nat \<bar>i\<bar>)
      in if 2 ^ 1024 \<le> m then (if i < 0 then NegInfinity else PosInfinity)
         else Num (if i < 0 then - int m else int m))"

text \<open>\<open>a - b\<close> and \<open>a + b\<close>: the exact result, rounded.\<close>

fun jsSub :: "jsNumber \<Rightarrow> jsNumber \<Rightarrow> jsNumber" where
  "jsSub (Num a) (Num b) = toNumber (a - b)"
| "jsSub NaN _ = NaN"
| "jsSub _ NaN = NaN"
| "jsSub PosInfinity PosInfinity = NaN"
| "jsSub NegInfinity NegInfinity = NaN"
| "jsSub PosInfinity _ = PosInfinity"
| "jsSub NegInfinity _ = NegInfinity"
| "jsSub (Num a) PosInfinity = NegInfinity"
| "jsSub (Num a) NegInfinity = PosInfinity"

fun jsAdd :: "jsNumber \<Rightarrow> jsNumber \<Rightarrow> jsNumber" where
  "jsAdd (Num a) (Num b) = toNumber (a + b)"
| "jsAdd NaN _ = NaN"
| "jsAdd _ NaN = NaN"
| "jsAdd PosInfinity NegInfinity = NaN"
| "jsAdd NegInfinity PosInfinity = NaN"
| "jsAdd PosInfinity _ = PosInfinity"
| "jsAdd NegInfinity _ = NegInfinity"
| "jsAdd (Num a) PosInfinity = PosInfinity"
| "jsAdd (Num a) NegInfinity = NegInfinity"

text \<open>\<open>a !== b\<close> on numbers: NaN differs from every number, itself included.\<close>

definition strictNotEqual :: "jsNumber \<Rightarrow> jsNumber \<Rightarrow> bool" where
  "strictNotEqual a b = (a = NaN \<or> b = NaN \<or> a \<noteq> b)"

section \<open>Common data of the command translation layer\<close>

text \<open>
  Errors are values. Every \<open>throw\<close> of a handler, and every failure reported by a
  helper or by the backend client, is a branch returning \<open>Inl\<close>. The handlers catch
  every exception and hand it to \<open>handleError\<close>; the model returns the error itself.
\<close>

datatype error =
    RangeMismatch string jsNumber int
      \<comment> \<open>update-values.ts: range, expectedRows, actualRows (the data of the message)\<close>
  | ChartNotFound int
      \<comment> \<open>update-chart.ts: "Chart with ID ... not found"\<close>
  | InvalidRangeError string
  | SheetNotFoundError string
  | BackendError string

text \<open>The backend's GridRange: every bound is optional (absent means unbounded).\<close>

record gridRange =
  sheetId :: "int option"
  startRowIndex :: "int option"
  endRowIndex :: "int option"
  startColumnIndex :: "int option"
  endColumnIndex :: "int option"

text \<open>
  The helpers of \<open>utils/range-helpers\<close> (\<open>extractSheetName\<close>, \<open>getSheetId\<close>,
  \<open>parseRange\<close>) are imported by the handlers; the handlers are modelled over any
  implementation of them. \<open>getSheetId\<close> receives the spreadsheet id and the sheet
  name (possibly absent); each helper may throw.
\<close>

record helpers =
  extractSheetName :: "string \<Rightarrow> error + (string option \<times> string)"
  getSheetId :: "string \<Rightarrow> string option \<Rightarrow> error + int"
  parseRange :: "string \<Rightarrow> int \<Rightarrow> error + gridRange"

text \<open>JavaScript truthiness of an optional string: absent and the empty string are falsy.\<close>

definition truthy :: "string option \<Rightarrow> bool" where
  "truthy s = (case s of None \<Rightarrow> False | Some t \<Rightarrow> t \<noteq> [])"

text \<open>Character classes of the regular expressions: \<open>[A-Z]\<close> and \<open>\d\<close>.\<close>

definition isUpperAZ :: "char \<Rightarrow> bool" where
  "isUpperAZ c = (65 \<le> (of_char c :: nat) \<and> (of_char c :: nat) \<le> 90)"

definition isDigit :: "char \<Rightarrow> bool" where
  "isDigit c = (48 \<le> (of_char c :: nat) \<and> (of_char c :: nat) \<le> 57)"

text \<open>The integer that a string of decimal digits denotes.\<close>

definition digitsValue :: "string \<Rightarrow> int" where
  "digitsValue s = foldl (\<lambda>acc c. acc * 10 + (of_char c - 48)) 0 s"

text \<open>
  \<open>parseInt(s, 10)\<close> on a string of decimal digits: the number nearest to the integer
  the digits denote. (Past the twentieth significant digit the language lets an engine
  read the digits as zeros; the model rounds the integer itself.)
\<close>

definition parseInt10 :: "string \<Rightarrow> jsNumber" where
  "parseInt10 s = toNumber (digitsValue s)"

text \<open>Number to string, as a template literal renders an integer.\<close>

function natDigits :: "nat \<Rightarrow> string \<Rightarrow> string" where
  "natDigits n acc =
     (if n < 10 then char_of (48 + n) # acc
      else natDigits (n div 10) (char_of (48 + n mod 10) # acc))"
  by pat_completeness auto
termination
  by (relation "measure (\<lambda>(n, acc). n)") auto

declare natDigits.simps [simp del]

definition showInt :: "int \<Rightarrow> string" where
  "showInt i = (if i < 0 then CHR ''-'' # natDigits (nat (- i)) [] else natDigits (nat i) [])"

text \<open>\<open>a ?? d\<close> and, for values that are never falsy when present, \<open>a || d\<close>.\<close>

definition orElse :: "'a option \<Rightarrow> 'a \<Rightarrow> 'a" where
  "orElse x d = (case x of None \<Rightarrow> d | Some v \<Rightarrow> v)"

text \<open>\<open>a || d\<close> on optional strings and on optional numbers (\<open>''\<close> and \<open>0\<close> are falsy).\<close>

definition strOr :: "string option \<Rightarrow> string \<Rightarrow> string" where
  "strOr a d = (case a of None \<Rightarrow> d | Some t \<Rightarrow> if t = [] then d else t)"

definition numOr :: "int option \<Rightarrow> int option \<Rightarrow> int option" where
  "numOr a b = (case a of None \<Rightarrow> b | Some n \<Rightarrow> if n = 0 then b else Some n)"

text \<open>\<open>s.endsWith(suf)\<close>.\<close>

definition endsWith :: "string \<Rightarrow> string \<Rightarrow> bool" where
  "endsWith s suf = (length suf \<le> length s \<and> drop (length s - length suf) s = suf)"

subsection \<open>The two regular expressions of the handlers\<close>

text \<open>
  \<open>matchRect s\<close> matches \<^verbatim>\<open>([A-Z]+)(\d+):([A-Z]+)(\d+)\<close> at the first character of
  \<open>s\<close> and returns the four groups and the unmatched remainder. Each quantifier is
  greedy and is followed by a character outside its own class, so giving characters
  back never turns a failed attempt into a match: the longest run is the only candidate.
\<close>

definition matchRect :: "string \<Rightarrow> (string \<times> string \<times> string \<times> string \<times> string) option" where
  "matchRect s =
     (let l1 = takeWhile isUpperAZ s; r1 = dropWhile isUpperAZ s;
          d1 = takeWhile isDigit r1; r2 = dropWhile isDigit r1
      in if l1 = [] \<or> d1 = [] then None
         else (case r2 of
                 [] \<Rightarrow> None
               | c # r3 \<Rightarrow>
                   if c \<noteq> CHR '':'' then None
                   else (let l2 = takeWhile isUpperAZ r3; r4 = dropWhile isUpperAZ r3;
                             d2 = takeWhile isDigit r4; rest = dropWhile isDigit r4
                         in if l2 = [] \<or> d2 = [] then None
                            else Some (l1, d1, l2, d2, rest))))"

text \<open>The same pattern closed by \<open>$\<close>: the match has to reach the end of the input.\<close>

definition matchRectEnd :: "string \<Rightarrow> (string \<times> string \<times> string \<times> string \<times> string) option" where
  "matchRectEnd s =
     (case matchRect s of
        None \<Rightarrow> None
      | Some (l1, d1, l2, d2, rest) \<Rightarrow> if rest = [] then Some (l1, d1, l2, d2, rest) else None)"

text \<open>\<open>String.prototype.match\<close> without the g flag: the leftmost start that matches.\<close>

fun regexSearch :: "(string \<Rightarrow> 'a option) \<Rightarrow> string \<Rightarrow> 'a option" where
  "regexSearch m [] = m []"
| "regexSearch m (c # cs) =
     (case m (c # cs) of Some r \<Rightarrow> Some r | None \<Rightarrow> regexSearch m cs)"

section \<open>Coordinate translator: column letters\<close>

text \<open>
  \<open>indexToColumn\<close> of the row-insert command:
  \<^verbatim>\<open>
  let column = ''; let num = index + 1;
  while (num > 0) { num--; column = String.fromCharCode((num % 26) + 65) + column;
                    num = Math.floor(num / 26); }
  return column;
  \<close>
\<close>

function indexToColumn_loop :: "int \<Rightarrow> string \<Rightarrow> string" where
  "indexToColumn_loop num column =
     (if num > 0
      then indexToColumn_loop ((num - 1) div 26) (char_of ((num - 1) mod 26 + 65) # column)
      else column)"
  by pat_completeness auto
termination
  by (relation "measure (\<lambda>(num, column). nat num)") auto

declare indexToColumn_loop.simps [simp del]

definition indexToColumn :: "int \<Rightarrow> string" where
  "indexToColumn index = indexToColumn_loop (index + 1) []"

text \<open>
  Modelled from the spec: the inverse conversion (\<open>columnToIndex\<close>, in the spec also
  \<open>lettersToIndex\<close>) lives in \<open>utils/range-helpers\<close>, which is not among the
  sources. The spec fixes it as bijective base-26 without a zero digit: A=0, Z=25, AA=26.
\<close>

definition columnToIndex :: "string \<Rightarrow> int" where
  "columnToIndex s = foldl (\<lambda>acc c. acc * 26 + (of_char c - 64)) 0 s - 1"

text \<open>
  Modelled from the spec: a valid column-letter string is a non-empty string of the
  letters A to Z.
\<close>

definition validColumn :: "string \<Rightarrow> bool" where
  "validColumn s = (s \<noteq> [] \<and> list_all isUpperAZ s)"

section \<open>Backend requests and the backend client\<close>

datatype insertPosition = BEFORE | AFTER

datatype valueInputOption = RAW | USER_ENTERED

type_synonym cellValue = string

record dimensionRange =
  dr_sheetId :: int
  dr_dimension :: string
  dr_startIndex :: int
  dr_endIndex :: int

record insertDimensionRequest =
  id_range :: dimensionRange
  id_inheritFromBefore :: bool

record valuesUpdateCall =
  vu_spreadsheetId :: string
  vu_range :: string
  vu_valueInputOption :: valueInputOption
  vu_values :: "cellValue list list"

record updateReply =
  updatedCells :: "int option"
  updatedRange :: "string option"

subsection \<open>Cell formats (the zod schemas of the formatting command)\<close>

record colorSchema =
  red :: "real option"
  green :: "real option"
  blue :: "real option"
  alpha :: "real option"

record textFormatSchema =
  foregroundColor :: "colorSchema option"
  fontFamily :: "string option"
  fontSize :: "real option"
  bold :: "bool option"
  italic :: "bool option"
  strikethrough :: "bool option"
  underline :: "bool option"

datatype horizontalAlign = LEFT | CENTER | RIGHT

datatype verticalAlign = TOP | MIDDLE | BOTTOM

datatype wrapStrategyEnum = OVERFLOW_CELL | LEGACY_WRAP | CLIP | WRAP

datatype numberFormatType =
  TEXT | NUMBER | PERCENT | CURRENCY | DATE | TIME | DATE_TIME | SCIENTIFIC

record numberFormatSchema =
  nf_type :: numberFormatType
  nf_pattern :: "string option"

record paddingSchema =
  pad_top :: "real option"
  pad_right :: "real option"
  pad_bottom :: "real option"
  pad_left :: "real option"

text \<open>The validated \<open>format\<close> parameter (\<open>cellFormatSchema\<close>).\<close>

record cellFormatSchema =
  in_backgroundColor :: "colorSchema option"
  in_textFormat :: "textFormatSchema option"
  in_horizontalAlignment :: "horizontalAlign option"
  in_verticalAlignment :: "verticalAlign option"
  in_wrapStrategy :: "wrapStrategyEnum option"
  in_numberFormat :: "numberFormatSchema option"
  in_padding :: "paddingSchema option"

text \<open>
  The backend's CellFormat as the handlers assemble it: a key is present exactly when
  the field is \<open>Some\<close>. In \<open>numberFormat\<close> the key \<open>pattern\<close> is always present;
  \<open>None\<close> there is the value \<open>null\<close>.
\<close>

record numberFormat =
  type :: numberFormatType
  pattern :: "string option"

record cellFormat =
  backgroundColor :: "colorSchema option"
  textFormat :: "textFormatSchema option"
  horizontalAlignment :: "horizontalAlign option"
  verticalAlignment :: "verticalAlign option"
  wrapStrategy :: "wrapStrategyEnum option"
  numberFormat :: "numberFormat option"
  padding :: "paddingSchema option"

record repeatCellRequest =
  rc_range :: gridRange
  rc_userEnteredFormat :: cellFormat
  rc_fields :: string

subsection \<open>Borders\<close>

datatype borderStyle = NONE | SOLID | DASHED | DOTTED | SOLID_MEDIUM | SOLID_THICK | DOUBLE

record border =
  style :: borderStyle
  color :: "colorSchema option"
  width :: "real option"

record bordersSchema =
  in_top :: "border option"
  in_bottom :: "border option"
  in_left :: "border option"
  in_right :: "border option"
  in_innerHorizontal :: "border option"
  in_innerVertical :: "border option"

record updateBordersRequest =
  ub_range :: gridRange
  ub_top :: "border option"
  ub_bottom :: "border option"
  ub_left :: "border option"
  ub_right :: "border option"
  ub_innerHorizontal :: "border option"
  ub_innerVertical :: "border option"

subsection \<open>Charts\<close>

text \<open>
  The backend's chart objects. Every key is optional at the backend, so every field is
  an option; \<open>other\<close> fields stand for the keys of the backend schema that the
  handlers never name (header count, stacking, pie hole, fonts and so on).
\<close>

record chartData =
  sources :: "gridRange list option"

record basicChartAxis =
  axis_position :: string
  axis_title :: "string option"

record basicChartDomain =
  domain :: chartData

record basicChartSeries =
  series :: chartData
  targetAxis :: "string option"
  series_type :: "string option"

record basicChartSpec =
  chartType :: "string option"
  legendPosition :: "string option"
  axis :: "basicChartAxis list option"
  domains :: "basicChartDomain list option"
  basic_series :: "basicChartSeries list option"
  basic_other :: "(string \<times> string) list"

record pieChartSpec =
  pie_legendPosition :: "string option"
  pie_domain :: "chartData option"
  pie_series :: "chartData option"
  pie_other :: "(string \<times> string) list"

record chartSpec =
  title :: "string option"
  subtitle :: "string option"
  spec_backgroundColor :: "colorSchema option"
  altText :: "string option"
  basicChart :: "basicChartSpec option"
  pieChart :: "pieChartSpec option"
  spec_other :: "(string \<times> string) list"

record gridCoordinate =
  gc_sheetId :: "int option"
  rowIndex :: "int option"
  columnIndex :: "int option"

record overlayPositionSpec =
  anchorCell :: "gridCoordinate option"
  offsetXPixels :: "int option"
  offsetYPixels :: "int option"
  widthPixels :: "int option"
  heightPixels :: "int option"

record embeddedObjectPosition =
  overlayPosition :: "overlayPositionSpec option"

record embeddedChart =
  chartId :: "int option"
  position :: "embeddedObjectPosition option"
  spec :: "chartSpec option"

record sheet =
  charts :: "embeddedChart list option"

record spreadsheet =
  sheets :: "sheet list option"

text \<open>The validated \<open>position\<close> parameter of chart creation: every level is required.\<close>

record anchorCellInput =
  in_sheetId :: int
  in_rowIndex :: int
  in_columnIndex :: int

record overlayPositionInput =
  in_anchorCell :: anchorCellInput
  in_offsetXPixels :: "int option"
  in_offsetYPixels :: "int option"
  in_widthPixels :: "int option"
  in_heightPixels :: "int option"

record chartPositionInput =
  in_overlayPosition :: overlayPositionInput

subsection \<open>Requests, calls and the client\<close>

datatype request =
    InsertDimension insertDimensionRequest
  | RepeatCell repeatCellRequest
  | UpdateBorders updateBordersRequest
  | AddChart chartSpec chartPositionInput
  | UpdateEmbeddedObjectPosition int "embeddedObjectPosition option" string
  | UpdateChartSpec int chartSpec

datatype backendCall =
    SpreadsheetsGet string
  | BatchUpdate string "request list"
  | ValuesUpdate valuesUpdateCall

text \<open>
  The authenticated client is a parameter of every handler. What a structural batch
  update answers is opaque to this layer (\<open>batchReply\<close>). A handler returns the calls
  it dispatched itself, in order, and its outcome; the round-trips a helper makes on
  its own are the helper's.
\<close>

type_synonym batchReply = string

record backend =
  spreadsheets_get :: "string \<Rightarrow> error + spreadsheet"
  spreadsheets_batchUpdate :: "string \<Rightarrow> request list \<Rightarrow> error + batchReply"
  spreadsheets_values_update :: "valuesUpdateCall \<Rightarrow> error + updateReply"

section \<open>Row insertion (\<open>sheets_insert_rows\<close>)\<close>

record insertRowsInput =
  ir_spreadsheetId :: string
  ir_range :: string
  ir_rows :: int
  ir_position :: insertPosition
  ir_inheritFromBefore :: bool
  ir_values :: "cellValue list list option"
  ir_valueInputOption :: valueInputOption

text \<open>The success response: the data rendered into the message.\<close>

record insertRowsResponse =
  irr_rows :: int
  irr_position :: insertPosition
  irr_anchorRow :: int
  irr_sheetLabel :: string
  irr_updated :: "(int \<times> string) option"

text \<open>\<open>Math.max(...values.map(row => row.length))\<close> on a payload with at least one row.\<close>

definition maxRowLength :: "cellValue list list \<Rightarrow> int" where
  "maxRowLength vs =
     (case vs of [] \<Rightarrow> 0
      | r # rs \<Rightarrow> foldl max (int (length r)) (map (\<lambda>x. int (length x)) rs))"

definition handleInsertRows ::
  "helpers \<Rightarrow> backend \<Rightarrow> insertRowsInput
     \<Rightarrow> backendCall list \<times> (error + insertRowsResponse)" where
  "handleInsertRows h sheetsClient validatedInput =
     (case extractSheetName h (ir_range validatedInput) of
        Inl e \<Rightarrow> ([], Inl e)
      | Inr (sheetName, cellRange) \<Rightarrow>
     (case getSheetId h (ir_spreadsheetId validatedInput) sheetName of
        Inl e \<Rightarrow> ([], Inl e)
      | Inr sheetId' \<Rightarrow>
     (case parseRange h cellRange sheetId' of
        Inl e \<Rightarrow> ([], Inl e)
      | Inr parsedRange \<Rightarrow>
       (let anchorRowIndex = orElse (startRowIndex parsedRange) 0;
            anchorColumnIndex = orElse (startColumnIndex parsedRange) 0;
            startIndex = (if ir_position validatedInput = AFTER
                          then anchorRowIndex + 1 else anchorRowIndex);
            endIndex = startIndex + ir_rows validatedInput;
            insertRequests =
              [InsertDimension
                 \<lparr>id_range = \<lparr>dr_sheetId = sheetId', dr_dimension = ''ROWS'',
                               dr_startIndex = startIndex, dr_endIndex = endIndex\<rparr>,
                  id_inheritFromBefore = ir_inheritFromBefore validatedInput\<rparr>];
            insertCall = BatchUpdate (ir_spreadsheetId validatedInput) insertRequests;
            sheetLabel = strOr sheetName ''Sheet''
        in case spreadsheets_batchUpdate sheetsClient
                  (ir_spreadsheetId validatedInput) insertRequests of
             Inl e \<Rightarrow> ([insertCall], Inl e)
           | Inr _ \<Rightarrow>
             (case ir_values validatedInput of
                Some (v # vs) \<Rightarrow>
                  (let vals = v # vs;
                       updateStartRow = startIndex + 1;
                       updateEndRow = updateStartRow + int (length vals) - 1;
                       startColumn = indexToColumn anchorColumnIndex;
                       endColumn = indexToColumn (anchorColumnIndex + maxRowLength vals - 1);
                       cells = startColumn @ showInt updateStartRow @ '':''
                                 @ endColumn @ showInt updateEndRow;
                       updateRange =
                         (if truthy sheetName
                          then [CHR 0x27] @ strOr sheetName [] @ [CHR 0x27] @ ''!'' @ cells
                          else cells);
                       update =
                         \<lparr>vu_spreadsheetId = ir_spreadsheetId validatedInput,
                          vu_range = updateRange,
                          vu_valueInputOption = ir_valueInputOption validatedInput,
                          vu_values = vals\<rparr>;
                       cellCount = foldl (\<lambda>sum row. sum + int (length row)) 0 vals
                   in case spreadsheets_values_update sheetsClient update of
                        Inl e \<Rightarrow> ([insertCall, ValuesUpdate update], Inl e)
                      | Inr _ \<Rightarrow> ([insertCall, ValuesUpdate update],
                          Inr \<lparr>irr_rows = ir_rows validatedInput,
                               irr_position = ir_position validatedInput,
                               irr_anchorRow = anchorRowIndex + 1,
                               irr_sheetLabel = sheetLabel,
                               irr_updated = Some (cellCount, updateRange)\<rparr>))
              | _ \<Rightarrow> ([insertCall],
                          Inr \<lparr>irr_rows = ir_rows validatedInput,
                               irr_position = ir_position validatedInput,
                               irr_anchorRow = anchorRowIndex + 1,
                               irr_sheetLabel = sheetLabel,
                               irr_updated = None\<rparr>))))))"

section \<open>Value update (\<open>sheets_update_values\<close>)\<close>

record updateValuesInput =
  uv_spreadsheetId :: string
  uv_range :: string
  uv_values :: "cellValue list list"
  uv_valueInputOption :: valueInputOption

text \<open>
  \<open>validateRangeRowCount\<close>: returns when the range does not end in
  letters-digits:letters-digits (or a row group is empty), throws on a row count that
  differs from \<open>endRow - startRow + 1\<close>, computed on numbers. The payload's row count
  is the length of an array, below \<open>2^32\<close>, and so a number as it is.
\<close>

definition validateRangeRowCount :: "string \<Rightarrow> cellValue list list \<Rightarrow> error + unit" where
  "validateRangeRowCount rng vals =
     (case regexSearch matchRectEnd rng of
        None \<Rightarrow> Inr ()
      | Some (m1, m2, m3, m4, _) \<Rightarrow>
          if m2 = [] \<or> m4 = [] then Inr ()
          else (let startRow = parseInt10 m2;
                    endRow = parseInt10 m4;
                    expectedRows = jsAdd (jsSub endRow startRow) (Num 1);
                    actualRows = int (length vals)
                in if strictNotEqual expectedRows (Num actualRows)
                   then Inl (RangeMismatch rng expectedRows actualRows)
                   else Inr ()))"

text \<open>The response carries \<open>updatedCells || 0\<close> and the updated range.\<close>

definition handleUpdateValues ::
  "backend \<Rightarrow> updateValuesInput \<Rightarrow> backendCall list \<times> (error + int \<times> string option)" where
  "handleUpdateValues sheetsClient validatedInput =
     (case validateRangeRowCount (uv_range validatedInput) (uv_values validatedInput) of
        Inl e \<Rightarrow> ([], Inl e)
      | Inr _ \<Rightarrow>
          (let update = \<lparr>vu_spreadsheetId = uv_spreadsheetId validatedInput,
                         vu_range = uv_range validatedInput,
                         vu_valueInputOption = uv_valueInputOption validatedInput,
                         vu_values = uv_values validatedInput\<rparr>
           in case spreadsheets_values_update sheetsClient update of
                Inl e \<Rightarrow> ([ValuesUpdate update], Inl e)
              | Inr reply \<Rightarrow>
                  ([ValuesUpdate update],
                   Inr (orElse (updatedCells reply) 0, updatedRange reply))))"

section \<open>Cell formatting (\<open>sheets_format_cells\<close>, \<open>sheets_batch_format_cells\<close>)\<close>

text \<open>
  The format builder, the same statements in both handlers. An object is truthy, and
  so is every enum token, so each \<open>if (format.x)\<close> asks whether the key is present.
  The text format is copied key by key, each key only when it is not \<open>undefined\<close>.
\<close>

definition buildTextFormat :: "textFormatSchema \<Rightarrow> textFormatSchema" where
  "buildTextFormat tf =
     \<lparr>foregroundColor = (case foregroundColor tf of None \<Rightarrow> None | Some v \<Rightarrow> Some v),
      fontFamily = (case fontFamily tf of None \<Rightarrow> None | Some v \<Rightarrow> Some v),
      fontSize = (case fontSize tf of None \<Rightarrow> None | Some v \<Rightarrow> Some v),
      bold = (case bold tf of None \<Rightarrow> None | Some v \<Rightarrow> Some v),
      italic = (case italic tf of None \<Rightarrow> None | Some v \<Rightarrow> Some v),
      strikethrough = (case strikethrough tf of None \<Rightarrow> None | Some v \<Rightarrow> Some v),
      underline = (case underline tf of None \<Rightarrow> None | Some v \<Rightarrow> Some v)\<rparr>"

definition buildCellFormat :: "cellFormatSchema \<Rightarrow> cellFormat" where
  "buildCellFormat fmt =
     \<lparr>backgroundColor = in_backgroundColor fmt,
      textFormat = (case in_textFormat fmt of None \<Rightarrow> None
                    | Some tf \<Rightarrow> Some (buildTextFormat tf)),
      horizontalAlignment = in_horizontalAlignment fmt,
      verticalAlignment = in_verticalAlignment fmt,
      wrapStrategy = in_wrapStrategy fmt,
      numberFormat = (case in_numberFormat fmt of None \<Rightarrow> None
                      | Some nf \<Rightarrow> Some \<lparr>type = nf_type nf, pattern = nf_pattern nf\<rparr>),
      padding = in_padding fmt\<rparr>"

record formatCellsInput =
  fc_spreadsheetId :: string
  fc_range :: string
  fc_format :: cellFormatSchema

definition formatCellsHandler ::
  "helpers \<Rightarrow> backend \<Rightarrow> formatCellsInput \<Rightarrow> backendCall list \<times> (error + batchReply)" where
  "formatCellsHandler h sheetsClient validatedInput =
     (case extractSheetName h (fc_range validatedInput) of
        Inl e \<Rightarrow> ([], Inl e)
      | Inr (sheetName, cleanRange) \<Rightarrow>
     (case getSheetId h (fc_spreadsheetId validatedInput) sheetName of
        Inl e \<Rightarrow> ([], Inl e)
      | Inr sheetId' \<Rightarrow>
     (case parseRange h cleanRange sheetId' of
        Inl e \<Rightarrow> ([], Inl e)
      | Inr gridRange' \<Rightarrow>
          (let cellFormat' = buildCellFormat (fc_format validatedInput);
               requests = [RepeatCell \<lparr>rc_range = gridRange',
                                        rc_userEnteredFormat = cellFormat',
                                        rc_fields = ''userEnteredFormat''\<rparr>]
           in ([BatchUpdate (fc_spreadsheetId validatedInput) requests],
               spreadsheets_batchUpdate sheetsClient
                 (fc_spreadsheetId validatedInput) requests)))))"

record formatRequest =
  fr_range :: string
  fr_format :: cellFormatSchema

record batchFormatCellsInput =
  bf_spreadsheetId :: string
  bf_formatRequests :: "formatRequest list"

text \<open>The loop over the format requests; a throw in any round ends the command.\<close>

fun buildFormatRequests :: "helpers \<Rightarrow> string \<Rightarrow> formatRequest list \<Rightarrow> error + request list" where
  "buildFormatRequests h spreadsheetId [] = Inr []"
| "buildFormatRequests h spreadsheetId (fr # frs) =
     (case extractSheetName h (fr_range fr) of
        Inl e \<Rightarrow> Inl e
      | Inr (sheetName, cleanRange) \<Rightarrow>
     (case getSheetId h spreadsheetId sheetName of
        Inl e \<Rightarrow> Inl e
      | Inr sheetId' \<Rightarrow>
     (case parseRange h cleanRange sheetId' of
        Inl e \<Rightarrow> Inl e
      | Inr gridRange' \<Rightarrow>
          (case buildFormatRequests h spreadsheetId frs of
             Inl e \<Rightarrow> Inl e
           | Inr rest \<Rightarrow>
               Inr (RepeatCell \<lparr>rc_range = gridRange',
                                 rc_userEnteredFormat = buildCellFormat (fr_format fr),
                                 rc_fields = ''userEnteredFormat''\<rparr> # rest)))))"

definition handleBatchFormatCells ::
  "helpers \<Rightarrow> backend \<Rightarrow> batchFormatCellsInput
     \<Rightarrow> backendCall list \<times> (error + batchReply)" where
  "handleBatchFormatCells h sheetsClient validatedInput =
     (case buildFormatRequests h (bf_spreadsheetId validatedInput)
             (bf_formatRequests validatedInput) of
        Inl e \<Rightarrow> ([], Inl e)
      | Inr requests \<Rightarrow>
          ([BatchUpdate (bf_spreadsheetId validatedInput) requests],
           spreadsheets_batchUpdate sheetsClient (bf_spreadsheetId validatedInput) requests))"

section \<open>Borders (\<open>sheets_update_borders\<close>)\<close>

definition convertBorder :: "border option \<Rightarrow> border option" where
  "convertBorder b =
     (case b of
        None \<Rightarrow> None
      | Some x \<Rightarrow> Some \<lparr>style = style x, color = color x, width = width x\<rparr>)"

record updateBordersInput =
  bo_spreadsheetId :: string
  bo_range :: string
  bo_borders :: bordersSchema

definition updateBordersHandler ::
  "helpers \<Rightarrow> backend \<Rightarrow> updateBordersInput \<Rightarrow> backendCall list \<times> (error + batchReply)" where
  "updateBordersHandler h sheetsClient validatedInput =
     (case extractSheetName h (bo_range validatedInput) of
        Inl e \<Rightarrow> ([], Inl e)
      | Inr (sheetName, cleanRange) \<Rightarrow>
     (case getSheetId h (bo_spreadsheetId validatedInput) sheetName of
        Inl e \<Rightarrow> ([], Inl e)
      | Inr sheetId' \<Rightarrow>
     (case parseRange h cleanRange sheetId' of
        Inl e \<Rightarrow> ([], Inl e)
      | Inr gridRange' \<Rightarrow>
          (let borders = bo_borders validatedInput;
               updateBordersRequest =
                 \<lparr>ub_range = gridRange',
                  ub_top = convertBorder (in_top borders),
                  ub_bottom = convertBorder (in_bottom borders),
                  ub_left = convertBorder (in_left borders),
                  ub_right = convertBorder (in_right borders),
                  ub_innerHorizontal = convertBorder (in_innerHorizontal borders),
                  ub_innerVertical = convertBorder (in_innerVertical borders)\<rparr>;
               requests = [UpdateBorders updateBordersRequest]
           in ([BatchUpdate (bo_spreadsheetId validatedInput) requests],
               spreadsheets_batchUpdate sheetsClient
                 (bo_spreadsheetId validatedInput) requests)))))"

section \<open>Chart creation (\<open>sheets_create_chart\<close>)\<close>

record legendInput =
  lg_position :: "string option"

record axisInput =
  ax_title :: "string option"

record seriesInput =
  sourceRange :: string
  in_type :: "string option"
  in_targetAxis :: "string option"

record createChartInput =
  cc_spreadsheetId :: string
  cc_position :: chartPositionInput
  cc_chartType :: string
  cc_title :: "string option"
  cc_subtitle :: "string option"
  cc_series :: "seriesInput list"
  cc_domainRange :: "string option"
  cc_domainAxis :: "axisInput option"
  cc_leftAxis :: "axisInput option"
  cc_rightAxis :: "axisInput option"
  cc_legend :: "legendInput option"
  cc_backgroundColor :: "colorSchema option"
  cc_altText :: "string option"

text \<open>"Validate and fix legend position": the token with the suffix it lacks.\<close>

definition createLegendPosition :: "legendInput option \<Rightarrow> string" where
  "createLegendPosition legend =
     (case legend of
        None \<Rightarrow> ''BOTTOM_LEGEND''
      | Some l \<Rightarrow>
          if truthy (lg_position l)
          then (let pos = strOr (lg_position l) []
                in if \<not> endsWith pos ''_LEGEND'' \<and> pos \<noteq> ''NO_LEGEND''
                   then pos @ ''_LEGEND'' else pos)
          else ''BOTTOM_LEGEND'')"

definition axisTitle :: "axisInput option \<Rightarrow> string option" where
  "axisTitle a = (case a of None \<Rightarrow> None | Some x \<Rightarrow> ax_title x)"

definition buildAxes :: "createChartInput \<Rightarrow> basicChartAxis list" where
  "buildAxes validatedInput =
     (if truthy (axisTitle (cc_domainAxis validatedInput))
      then [\<lparr>axis_position = ''BOTTOM_AXIS'',
             axis_title = axisTitle (cc_domainAxis validatedInput)\<rparr>] else [])
     @ (if truthy (axisTitle (cc_leftAxis validatedInput))
        then [\<lparr>axis_position = ''LEFT_AXIS'',
               axis_title = axisTitle (cc_leftAxis validatedInput)\<rparr>] else [])
     @ (if truthy (axisTitle (cc_rightAxis validatedInput))
        then [\<lparr>axis_position = ''RIGHT_AXIS'',
               axis_title = axisTitle (cc_rightAxis validatedInput)\<rparr>] else [])"

text \<open>
  A range with its own sheet qualifier is resolved by name, any other range on the
  sheet id given as default: \<open>name ? await getSheetId(...) : defaultId\<close>, then
  \<open>parseRange\<close>.
\<close>

definition resolveOn :: "helpers \<Rightarrow> string \<Rightarrow> string option \<Rightarrow> int \<Rightarrow> error + int" where
  "resolveOn h spreadsheetId name defaultId =
     (if truthy name then getSheetId h spreadsheetId name else Inr defaultId)"

text \<open>The domain derived from a series range: column A over the rows of the first match.\<close>

definition columnARange :: "string \<Rightarrow> string option" where
  "columnARange cleanRange =
     (case regexSearch matchRect cleanRange of
        None \<Rightarrow> None
      | Some (_, m1, _, m2, _) \<Rightarrow> Some (''A'' @ m1 @ '':A'' @ m2))"

text \<open>The loop "Parse each series" of the categorical branch.\<close>

fun parseSeries ::
  "helpers \<Rightarrow> string \<Rightarrow> string \<Rightarrow> int \<Rightarrow> seriesInput list \<Rightarrow> error + basicChartSeries list" where
  "parseSeries h spreadsheetId chartType' actualSheetId [] = Inr []"
| "parseSeries h spreadsheetId chartType' actualSheetId (s # ss) =
     (case extractSheetName h (sourceRange s) of
        Inl e \<Rightarrow> Inl e
      | Inr (seriesSheetName, cleanRange) \<Rightarrow>
     (case resolveOn h spreadsheetId seriesSheetName actualSheetId of
        Inl e \<Rightarrow> Inl e
      | Inr seriesSheetId \<Rightarrow>
     (case parseRange h cleanRange seriesSheetId of
        Inl e \<Rightarrow> Inl e
      | Inr gridRange' \<Rightarrow>
     (case parseSeries h spreadsheetId chartType' actualSheetId ss of
        Inl e \<Rightarrow> Inl e
      | Inr rest \<Rightarrow>
          Inr (\<lparr>series = \<lparr>sources = Some [gridRange']\<rparr>,
                targetAxis = Some (strOr (in_targetAxis s) ''LEFT_AXIS''),
                series_type = Some (strOr (in_type s) chartType')\<rparr> # rest)))))"

text \<open>"Add domain" of the categorical branch: the explicit range, or column A.\<close>

definition basicDomains ::
  "helpers \<Rightarrow> createChartInput \<Rightarrow> string \<Rightarrow> int \<Rightarrow> error + basicChartDomain list option" where
  "basicDomains h validatedInput firstSeriesRange actualSheetId =
     (if truthy (cc_domainRange validatedInput)
      then (case extractSheetName h (strOr (cc_domainRange validatedInput) []) of
              Inl e \<Rightarrow> Inl e
            | Inr (domainSheetName, domainCleanRange) \<Rightarrow>
           (case resolveOn h (cc_spreadsheetId validatedInput) domainSheetName actualSheetId of
              Inl e \<Rightarrow> Inl e
            | Inr domainSheetId \<Rightarrow>
           (case parseRange h domainCleanRange domainSheetId of
              Inl e \<Rightarrow> Inl e
            | Inr domainGridRange \<Rightarrow>
                Inr (Some [\<lparr>domain = \<lparr>sources = Some [domainGridRange]\<rparr>\<rparr>]))))
      else (case extractSheetName h firstSeriesRange of
              Inl e \<Rightarrow> Inl e
            | Inr (domainSheetName, domainCleanRange) \<Rightarrow>
           (case resolveOn h (cc_spreadsheetId validatedInput) domainSheetName actualSheetId of
              Inl e \<Rightarrow> Inl e
            | Inr domainSheetId \<Rightarrow>
           (case columnARange domainCleanRange of
              None \<Rightarrow> Inr None
            | Some domainRange \<Rightarrow>
               (case parseRange h domainRange domainSheetId of
                  Inl e \<Rightarrow> Inl e
                | Inr domainGridRange \<Rightarrow>
                    Inr (Some [\<lparr>domain = \<lparr>sources = Some [domainGridRange]\<rparr>\<rparr>]))))))"

text \<open>
  The chart specification. The \<open>switch\<close> on the chart type has one body for every
  type but PIE; the axis list is replaced only by a non-empty one; then the series
  branch of the family fills series and domain.
\<close>

definition buildChartSpec :: "helpers \<Rightarrow> createChartInput \<Rightarrow> error + chartSpec" where
  "buildChartSpec h validatedInput =
     (let legendPosition' = createLegendPosition (cc_legend validatedInput);
          anchorSheetId = in_sheetId (in_anchorCell (in_overlayPosition (cc_position validatedInput)));
          base = \<lparr>title = cc_title validatedInput,
                  subtitle = cc_subtitle validatedInput,
                  spec_backgroundColor = cc_backgroundColor validatedInput,
                  altText = cc_altText validatedInput,
                  basicChart = None, pieChart = None, spec_other = []\<rparr>
      in if cc_chartType validatedInput = ''PIE''
         then (let pie = \<lparr>pie_legendPosition = Some legendPosition',
                           pie_domain = Some \<lparr>sources = None\<rparr>,
                           pie_series = Some \<lparr>sources = None\<rparr>,
                           pie_other = []\<rparr>
               in case cc_series validatedInput of
                    [] \<Rightarrow> Inr (base\<lparr>pieChart := Some pie\<rparr>)
                  | firstSeries # _ \<Rightarrow>
                     (case extractSheetName h (sourceRange firstSeries) of
                        Inl e \<Rightarrow> Inl e
                      | Inr (sheetName, cleanRange) \<Rightarrow>
                     (case resolveOn h (cc_spreadsheetId validatedInput) sheetName anchorSheetId of
                        Inl e \<Rightarrow> Inl e
                      | Inr seriesSheetId \<Rightarrow>
                     (case parseRange h cleanRange seriesSheetId of
                        Inl e \<Rightarrow> Inl e
                      | Inr gridRange' \<Rightarrow>
                         (let pie1 = pie\<lparr>pie_series := Some \<lparr>sources = Some [gridRange']\<rparr>\<rparr>
                          in case columnARange cleanRange of
                               None \<Rightarrow> Inr (base\<lparr>pieChart := Some pie1\<rparr>)
                             | Some domainRange \<Rightarrow>
                                (case parseRange h domainRange seriesSheetId of
                                   Inl e \<Rightarrow> Inl e
                                 | Inr domainGridRange \<Rightarrow>
                                     Inr (base\<lparr>pieChart := Some (pie1
                                       \<lparr>pie_domain :=
                                          Some \<lparr>sources = Some [domainGridRange]\<rparr>\<rparr>)\<rparr>)))))))
         else (let axes = buildAxes validatedInput;
                   basic = \<lparr>chartType = Some (cc_chartType validatedInput),
                             legendPosition = Some legendPosition',
                             axis = Some (if axes \<noteq> [] then axes else []),
                             domains = Some [],
                             basic_series = Some [],
                             basic_other = []\<rparr>
               in case cc_series validatedInput of
                    [] \<Rightarrow> Inr (base\<lparr>basicChart := Some basic\<rparr>)
                  | firstSeries # _ \<Rightarrow>
                     (case extractSheetName h (sourceRange firstSeries) of
                        Inl e \<Rightarrow> Inl e
                      | Inr (sheetName, _) \<Rightarrow>
                     (case resolveOn h (cc_spreadsheetId validatedInput) sheetName anchorSheetId of
                        Inl e \<Rightarrow> Inl e
                      | Inr actualSheetId \<Rightarrow>
                     (case parseSeries h (cc_spreadsheetId validatedInput)
                             (cc_chartType validatedInput) actualSheetId
                             (cc_series validatedInput) of
                        Inl e \<Rightarrow> Inl e
                      | Inr allSeries \<Rightarrow>
                     (case basicDomains h validatedInput (sourceRange firstSeries) actualSheetId of
                        Inl e \<Rightarrow> Inl e
                      | Inr newDomains \<Rightarrow>
                          Inr (base\<lparr>basicChart := Some (basic
                            \<lparr>basic_series := Some allSeries,
                             domains := (case newDomains of None \<Rightarrow> Some []
                                         | Some ds \<Rightarrow> Some ds)\<rparr>)\<rparr>)))))))"

definition handleCreateChart ::
  "helpers \<Rightarrow> backend \<Rightarrow> createChartInput \<Rightarrow> backendCall list \<times> (error + batchReply)" where
  "handleCreateChart h sheetsClient validatedInput =
     (case buildChartSpec h validatedInput of
        Inl e \<Rightarrow> ([], Inl e)
      | Inr chartSpec' \<Rightarrow>
          (let requests = [AddChart chartSpec' (cc_position validatedInput)]
           in ([BatchUpdate (cc_spreadsheetId validatedInput) requests],
               spreadsheets_batchUpdate sheetsClient
                 (cc_spreadsheetId validatedInput) requests)))"

section \<open>Chart update (\<open>sheets_update_chart\<close>)\<close>

record updateChartInput =
  uc_spreadsheetId :: string
  uc_chartId :: int
  uc_position :: "embeddedObjectPosition option"
  uc_chartType :: "string option"
  uc_title :: "string option"
  uc_subtitle :: "string option"
  uc_series :: "seriesInput list option"
  uc_legend :: "legendInput option"
  uc_backgroundColor :: "colorSchema option"
  uc_altText :: "string option"

text \<open>"Find the chart in the spreadsheet": the first chart with the id, sheet by sheet.\<close>

definition findChart :: "spreadsheet \<Rightarrow> int \<Rightarrow> embeddedChart option" where
  "findChart sp cid =
     List.find (\<lambda>c. chartId c = Some cid)
       (concat (map (\<lambda>sh. orElse (charts sh) []) (orElse (sheets sp) [])))"

definition emptySpec :: chartSpec where
  "emptySpec = \<lparr>title = None, subtitle = None, spec_backgroundColor = None, altText = None,
                 basicChart = None, pieChart = None, spec_other = []\<rparr>"

text \<open>\<open>validatedInput.legend?.position || 'BOTTOM_LEGEND'\<close>.\<close>

definition updateLegendPosition :: "legendInput option \<Rightarrow> string" where
  "updateLegendPosition legend =
     strOr (case legend of None \<Rightarrow> None | Some l \<Rightarrow> lg_position l) ''BOTTOM_LEGEND''"

text \<open>\<open>position?.overlayPosition?.anchorCell?.sheetId\<close>.\<close>

definition anchorSheetIdOf :: "embeddedObjectPosition option \<Rightarrow> int option" where
  "anchorSheetIdOf p =
     (case p of None \<Rightarrow> None | Some q \<Rightarrow>
      (case overlayPosition q of None \<Rightarrow> None | Some ov \<Rightarrow>
       (case anchorCell ov of None \<Rightarrow> None | Some a \<Rightarrow> gc_sheetId a)))"

text \<open>"Update chart type and structure if specified".\<close>

definition applyChartType :: "updateChartInput \<Rightarrow> chartSpec option \<Rightarrow> chartSpec \<Rightarrow> chartSpec" where
  "applyChartType validatedInput currentSpec sp =
     (if truthy (uc_chartType validatedInput)
      then (if uc_chartType validatedInput = Some ''PIE''
            then (let curPie = (case currentSpec of None \<Rightarrow> None | Some c \<Rightarrow> pieChart c)
                  in sp\<lparr>pieChart := Some
                          \<lparr>pie_legendPosition =
                             Some (updateLegendPosition (uc_legend validatedInput)),
                           pie_domain = Some (orElse
                             (case curPie of None \<Rightarrow> None | Some p \<Rightarrow> pie_domain p)
                             \<lparr>sources = None\<rparr>),
                           pie_series = Some (orElse
                             (case curPie of None \<Rightarrow> None | Some p \<Rightarrow> pie_series p)
                             \<lparr>sources = None\<rparr>),
                           pie_other = []\<rparr>,
                        basicChart := None\<rparr>)
            else (let curBasic = (case currentSpec of None \<Rightarrow> None | Some c \<Rightarrow> basicChart c)
                  in sp\<lparr>basicChart := Some
                          \<lparr>chartType = uc_chartType validatedInput,
                           legendPosition =
                             Some (updateLegendPosition (uc_legend validatedInput)),
                           axis = Some (orElse
                             (case curBasic of None \<Rightarrow> None | Some b \<Rightarrow> axis b) []),
                           domains = Some (orElse
                             (case curBasic of None \<Rightarrow> None | Some b \<Rightarrow> domains b) []),
                           basic_series = Some (orElse
                             (case curBasic of None \<Rightarrow> None | Some b \<Rightarrow> basic_series b) []),
                           basic_other = []\<rparr>,
                        pieChart := None\<rparr>))
      else sp)"

text \<open>"Update legend if provided".\<close>

definition applyLegend :: "updateChartInput \<Rightarrow> chartSpec \<Rightarrow> chartSpec" where
  "applyLegend validatedInput sp =
     (case uc_legend validatedInput of
        None \<Rightarrow> sp
      | Some l \<Rightarrow>
         (case basicChart sp of
            Some b \<Rightarrow>
              sp\<lparr>basicChart :=
                   Some (b\<lparr>legendPosition := Some (strOr (lg_position l) ''BOTTOM_LEGEND'')\<rparr>)\<rparr>
          | None \<Rightarrow>
             (case pieChart sp of
                Some p \<Rightarrow>
                  sp\<lparr>pieChart :=
                       Some (p\<lparr>pie_legendPosition :=
                                  Some (strOr (lg_position l) ''BOTTOM_LEGEND'')\<rparr>)\<rparr>
              | None \<Rightarrow> sp)))"

text \<open>
  "Update series if provided": every series of the input becomes a series over the
  fixed region rows 0 to 100, columns 0 to 1 of the anchor sheet.
\<close>

definition updatedSeries ::
  "updateChartInput \<Rightarrow> embeddedChart \<Rightarrow> seriesInput \<Rightarrow> basicChartSeries" where
  "updatedSeries validatedInput currentChart s =
     \<lparr>series = \<lparr>sources = Some
         [\<lparr>sheetId = numOr (anchorSheetIdOf (uc_position validatedInput))
                             (anchorSheetIdOf (position currentChart)),
           startRowIndex = Some 0, endRowIndex = Some 100,
           startColumnIndex = Some 0, endColumnIndex = Some 1\<rparr>]\<rparr>,
      targetAxis = Some (strOr (in_targetAxis s) ''LEFT_AXIS''),
      series_type = (case in_type s of Some t \<Rightarrow> Some t
                     | None \<Rightarrow> uc_chartType validatedInput)\<rparr>"

definition applySeries :: "updateChartInput \<Rightarrow> embeddedChart \<Rightarrow> chartSpec \<Rightarrow> chartSpec" where
  "applySeries validatedInput currentChart sp =
     (case uc_series validatedInput of
        None \<Rightarrow> sp
      | Some ss \<Rightarrow>
         (case basicChart sp of
            None \<Rightarrow> sp
          | Some b \<Rightarrow>
              sp\<lparr>basicChart := Some (b\<lparr>basic_series :=
                     Some (map (updatedSeries validatedInput currentChart) ss)\<rparr>)\<rparr>))"

text \<open>"Update spec properties only if they are defined".\<close>

definition applyScalars :: "updateChartInput \<Rightarrow> chartSpec \<Rightarrow> chartSpec" where
  "applyScalars validatedInput sp0 =
     (let sp1 = (case uc_title validatedInput of None \<Rightarrow> sp0
                 | Some t \<Rightarrow> sp0\<lparr>title := Some t\<rparr>);
          sp2 = (case uc_subtitle validatedInput of None \<Rightarrow> sp1
                 | Some t \<Rightarrow> sp1\<lparr>subtitle := Some t\<rparr>);
          sp3 = (case uc_backgroundColor validatedInput of None \<Rightarrow> sp2
                 | Some c \<Rightarrow> sp2\<lparr>spec_backgroundColor := Some c\<rparr>)
      in (case uc_altText validatedInput of None \<Rightarrow> sp3
          | Some t \<Rightarrow> sp3\<lparr>altText := Some t\<rparr>))"

text \<open>
  The updated specification: a copy of the current one (\<open>{...currentChart.spec}\<close>),
  then the four scalar fields that are defined in the input, then chart type, legend
  and series. The copy is shallow, so the legend step writes into the chart body that
  the current chart holds too; nothing reads the current body after that step.
\<close>

definition updatedSpec :: "updateChartInput \<Rightarrow> embeddedChart \<Rightarrow> chartSpec" where
  "updatedSpec validatedInput currentChart =
     applySeries validatedInput currentChart
       (applyLegend validatedInput
          (applyChartType validatedInput (spec currentChart)
             (applyScalars validatedInput (orElse (spec currentChart) emptySpec))))"

definition handleUpdateChart ::
  "backend \<Rightarrow> updateChartInput \<Rightarrow> backendCall list \<times> (error + batchReply)" where
  "handleUpdateChart sheetsClient validatedInput =
     (let getCall = SpreadsheetsGet (uc_spreadsheetId validatedInput)
      in case spreadsheets_get sheetsClient (uc_spreadsheetId validatedInput) of
           Inl e \<Rightarrow> ([getCall], Inl e)
         | Inr spreadsheet' \<Rightarrow>
            (case findChart spreadsheet' (uc_chartId validatedInput) of
               None \<Rightarrow> ([getCall], Inl (ChartNotFound (uc_chartId validatedInput)))
             | Some currentChart \<Rightarrow>
                (let newPosition = (case uc_position validatedInput of
                                      Some p \<Rightarrow> Some p
                                    | None \<Rightarrow> position currentChart);
                     requests =
                       [UpdateEmbeddedObjectPosition (uc_chartId validatedInput)
                          newPosition ''position'',
                        UpdateChartSpec (uc_chartId validatedInput)
                          (updatedSpec validatedInput currentChart)]
                 in ([getCall, BatchUpdate (uc_spreadsheetId validatedInput) requests],
                     spreadsheets_batchUpdate sheetsClient
                       (uc_spreadsheetId validatedInput) requests))))"

section \<open>Range helpers and a client for evaluation\<close>

text \<open>
  Modelled from the spec: \<open>extractSheetName\<close> of \<open>utils/range-helpers\<close> is not
  among the sources. The address parser "detects and strips an optional leading
  sheet-name qualifier" and strips one layer of single quotes; an unmatched quote is
  a malformed reference.
\<close>

definition extractSheetNameSpec :: "string \<Rightarrow> error + (string option \<times> string)" where
  "extractSheetNameSpec r =
     (if CHR ''!'' \<notin> set r then Inr (None, r)
      else (let name = takeWhile (\<lambda>c. c \<noteq> CHR ''!'') r;
                rest = drop 1 (dropWhile (\<lambda>c. c \<noteq> CHR ''!'') r)
            in if name \<noteq> [] \<and> hd name = CHR 0x27
               then (if 2 \<le> length name \<and> last name = CHR 0x27
                     then Inr (Some (butlast (tl name)), rest)
                     else Inl (InvalidRangeError r))
               else Inr (Some name, rest)))"

text \<open>
  Modelled from the spec: one side of a reference, \<open>columnLetterRow\<close>, split into
  its column letters and its row digits (\<open>utils/range-helpers\<close> is not among the
  sources). A side without column letters, or with anything but digits after them, is
  malformed.
\<close>

definition splitCell :: "string \<Rightarrow> (string \<times> string) option" where
  "splitCell s =
     (let ls = takeWhile isUpperAZ s; ds = dropWhile isUpperAZ s
      in if ls = [] \<or> \<not> list_all isDigit ds then None else Some (ls, ds))"

text \<open>
  Modelled from the spec: the zero-based row bound of a side; a side without a row
  number leaves the bound absent (unbounded).
\<close>

definition rowBound :: "string \<Rightarrow> int option" where
  "rowBound ds = (if ds = [] then None else Some (digitsValue ds - 1))"

text \<open>
  Modelled from the spec: \<open>parseRange\<close> of \<open>utils/range-helpers\<close> is not among the
  sources. A reference is \<open>columnLetterRow [: columnLetterRow]\<close>; rows and columns
  come out zero-based with the bounds of the spec's examples (\<open>A1:C10\<close> is rows 0 to 9,
  columns 0 to 2; the single cell \<open>B2\<close> is row 1 to 1, column 1 to 1), a side without
  a row number leaves the row bound absent, and a reference without column letters, or
  with no digits after the letters of a single cell, is malformed.
\<close>

definition parseRangeSpec :: "string \<Rightarrow> int \<Rightarrow> error + gridRange" where
  "parseRangeSpec r sid =
     (let a = takeWhile (\<lambda>c. c \<noteq> CHR '':'') r;
          rest = dropWhile (\<lambda>c. c \<noteq> CHR '':'') r
      in case rest of
           [] \<Rightarrow>
             (case splitCell a of
                None \<Rightarrow> Inl (InvalidRangeError r)
              | Some (ls, ds) \<Rightarrow>
                  if ds = [] then Inl (InvalidRangeError r)
                  else Inr \<lparr>sheetId = Some sid,
                            startRowIndex = rowBound ds, endRowIndex = rowBound ds,
                            startColumnIndex = Some (columnToIndex ls),
                            endColumnIndex = Some (columnToIndex ls)\<rparr>)
         | _ # b \<Rightarrow>
             (case splitCell a of
                None \<Rightarrow> Inl (InvalidRangeError r)
              | Some (l1, d1) \<Rightarrow>
                 (case splitCell b of
                    None \<Rightarrow> Inl (InvalidRangeError r)
                  | Some (l2, d2) \<Rightarrow>
                      Inr \<lparr>sheetId = Some sid,
                           startRowIndex = rowBound d1, endRowIndex = rowBound d2,
                           startColumnIndex = Some (columnToIndex l1),
                           endColumnIndex = Some (columnToIndex l2)\<rparr>)))"

text \<open>
  Modelled from the spec: \<open>getSheetId\<close> of \<open>utils/range-helpers\<close> is not among the
  sources. The resolver matches the name exactly against the metadata list of names and
  ids and fails with the sheet-not-found error otherwise; without a name it stands for
  the first sheet. The metadata list is the argument \<open>meta\<close>.
\<close>

definition getSheetIdSpec :: "(string \<times> int) list \<Rightarrow> string \<Rightarrow> string option \<Rightarrow> error + int" where
  "getSheetIdSpec meta spreadsheetId name =
     (case name of
        None \<Rightarrow> (case meta of [] \<Rightarrow> Inl (SheetNotFoundError []) | (_, i) # _ \<Rightarrow> Inr i)
      | Some n \<Rightarrow> (case map_of meta n of None \<Rightarrow> Inl (SheetNotFoundError n)
                   | Some i \<Rightarrow> Inr i))"

text \<open>
  Modelled from the spec: the three helpers of \<open>utils/range-helpers\<close> together, over
  the metadata list of one spreadsheet.
\<close>

definition specHelpers :: "(string \<times> int) list \<Rightarrow> helpers" where
  "specHelpers meta =
     \<lparr>extractSheetName = extractSheetNameSpec,
      getSheetId = getSheetIdSpec meta,
      parseRange = parseRangeSpec\<rparr>"

text \<open>A client whose calls all succeed, over a spreadsheet with the given content.\<close>

definition okClient :: "spreadsheet \<Rightarrow> backend" where
  "okClient content =
     \<lparr>spreadsheets_get = (\<lambda>_. Inr content),
      spreadsheets_batchUpdate = (\<lambda>_ _. Inr ''{}''),
      spreadsheets_values_update =
        (\<lambda>u. Inr \<lparr>updatedCells = Some (foldl (\<lambda>n row. n + int (length row)) 0 (vu_values u)),
                   updatedRange = Some (vu_range u)\<rparr>)\<rparr>"

section \<open>Example data\<close>

text \<open>Concrete inputs and backend content at which the handlers are evaluated below.\<close>

definition noFormat :: cellFormatSchema where
  "noFormat =
     \<lparr>in_backgroundColor = None, in_textFormat = None, in_horizontalAlignment = None,
      in_verticalAlignment = None, in_wrapStrategy = None, in_numberFormat = None,
      in_padding = None\<rparr>"

definition noTextFormat :: textFormatSchema where
  "noTextFormat =
     \<lparr>foregroundColor = None, fontFamily = None, fontSize = None, bold = None,
      italic = None, strikethrough = None, underline = None\<rparr>"

definition boldOnly :: cellFormatSchema where
  "boldOnly = noFormat\<lparr>in_textFormat := Some (noTextFormat\<lparr>bold := Some True\<rparr>)\<rparr>"

definition redOnly :: cellFormatSchema where
  "redOnly = noFormat\<lparr>in_backgroundColor :=
     Some \<lparr>red = Some 1, green = None, blue = None, alpha = None\<rparr>\<rparr>"

definition noBorders :: bordersSchema where
  "noBorders =
     \<lparr>in_top = None, in_bottom = None, in_left = None, in_right = None,
      in_innerHorizontal = None, in_innerVertical = None\<rparr>"

text \<open>Rows 2 to 10 of one column of the sheet with id 0, as the modelled parser reads them.\<close>

definition exampleRange :: "int \<Rightarrow> gridRange" where
  "exampleRange col =
     \<lparr>sheetId = Some 0, startRowIndex = Some 1, endRowIndex = Some 9,
      startColumnIndex = Some col, endColumnIndex = Some col\<rparr>"

definition exampleBasic :: basicChartSpec where
  "exampleBasic =
     \<lparr>chartType = Some ''COLUMN'', legendPosition = Some ''RIGHT_LEGEND'',
      axis = Some [\<lparr>axis_position = ''BOTTOM_AXIS'', axis_title = Some ''Month''\<rparr>],
      domains = Some [\<lparr>domain = \<lparr>sources = Some [exampleRange 0]\<rparr>\<rparr>],
      basic_series = Some [\<lparr>series = \<lparr>sources = Some [exampleRange 1]\<rparr>,
                            targetAxis = Some ''LEFT_AXIS'', series_type = Some ''COLUMN''\<rparr>],
      basic_other = [(''headerCount'', ''1'')]\<rparr>"

definition exampleSpec :: chartSpec where
  "exampleSpec = emptySpec\<lparr>title := Some ''Sales'', basicChart := Some exampleBasic\<rparr>"

definition examplePosition :: embeddedObjectPosition where
  "examplePosition =
     \<lparr>overlayPosition = Some
        \<lparr>anchorCell = Some \<lparr>gc_sheetId = Some 0, rowIndex = Some 0, columnIndex = Some 4\<rparr>,
         offsetXPixels = None, offsetYPixels = None, widthPixels = None, heightPixels = None\<rparr>\<rparr>"

definition exampleChart :: embeddedChart where
  "exampleChart = \<lparr>chartId = Some 7, position = Some examplePosition, spec = Some exampleSpec\<rparr>"

definition exampleContent :: spreadsheet where
  "exampleContent = \<lparr>sheets = Some [\<lparr>charts = None\<rparr>, \<lparr>charts = Some [exampleChart]\<rparr>]\<rparr>"

text \<open>An update input that names a chart and nothing else.\<close>

definition updateOf :: "int \<Rightarrow> updateChartInput" where
  "updateOf cid =
     \<lparr>uc_spreadsheetId = ''doc'', uc_chartId = cid, uc_position = None,
      uc_chartType = None, uc_title = None, uc_subtitle = None, uc_series = None,
      uc_legend = None, uc_backgroundColor = None, uc_altText = None\<rparr>"

definition exampleAnchor :: chartPositionInput where
  "exampleAnchor =
     \<lparr>in_overlayPosition =
        \<lparr>in_anchorCell = \<lparr>in_sheetId = 0, in_rowIndex = 0, in_columnIndex = 4\<rparr>,
         in_offsetXPixels = None, in_offsetYPixels = None,
         in_widthPixels = None, in_heightPixels = None\<rparr>\<rparr>"

definition examplePie :: createChartInput where
  "examplePie =
     \<lparr>cc_spreadsheetId = ''doc'', cc_position = exampleAnchor, cc_chartType = ''PIE'',
      cc_title = None, cc_subtitle = None,
      cc_series = [\<lparr>sourceRange = ''Sheet1!B2:B10'', in_type = None, in_targetAxis = None\<rparr>],
      cc_domainRange = None, cc_domainAxis = None, cc_leftAxis = None, cc_rightAxis = None,
      cc_legend = None, cc_backgroundColor = None, cc_altText = None\<rparr>"

text \<open>
  The groups of a fixed rectangle read from the end of the string; used to show that
  the leftmost match of the anchored pattern has the same row groups wherever it starts.
\<close>

definition tailGroups :: "string \<Rightarrow> string \<times> string \<times> string" where
  "tailGroups t =
     (let r = rev t; a = takeWhile isDigit r; r1 = dropWhile isDigit r;
          b = takeWhile isUpperAZ r1; r2 = dropWhile isUpperAZ r1;
          c = takeWhile isDigit (tl r2)
      in (rev c, rev b, rev a))"

section \<open>Evaluation of the modelled helpers\<close>

lemma specHelpers_sel [simp]:
  "extractSheetName (specHelpers m) = extractSheetNameSpec"
  "getSheetId (specHelpers m) = getSheetIdSpec m"
  "parseRange (specHelpers m) = parseRangeSpec"
  by (simp_all add: specHelpers_def)

lemma extract_examples:
  "extractSheetNameSpec ''Sheet1!A5'' = Inr (Some ''Sheet1'', ''A5'')"
  "extractSheetNameSpec ''Sheet1!A1:B2'' = Inr (Some ''Sheet1'', ''A1:B2'')"
  "extractSheetNameSpec ''Sheet1!B2:B10'' = Inr (Some ''Sheet1'', ''B2:B10'')"
  by (simp_all add: extractSheetNameSpec_def)

lemma resolve_example: "getSheetIdSpec [(''Sheet1'', 0)] d (Some ''Sheet1'') = Inr 0"
  by (simp add: getSheetIdSpec_def)

lemma parse_examples:
  "parseRangeSpec ''A5'' 0 =
     Inr \<lparr>sheetId = Some 0, startRowIndex = Some 4, endRowIndex = Some 4,
          startColumnIndex = Some 0, endColumnIndex = Some 0\<rparr>"
  "parseRangeSpec ''A1:B2'' 0 =
     Inr \<lparr>sheetId = Some 0, startRowIndex = Some 0, endRowIndex = Some 1,
          startColumnIndex = Some 0, endColumnIndex = Some 1\<rparr>"
  "parseRangeSpec ''A2:A10'' 0 = Inr (exampleRange 0)"
  "parseRangeSpec ''B2:B10'' 0 = Inr (exampleRange 1)"
  "parseRangeSpec ''C2:C10'' 0 = Inr (exampleRange 2)"
  by (simp_all add: parseRangeSpec_def splitCell_def rowBound_def isUpperAZ_def isDigit_def
      digitsValue_def columnToIndex_def exampleRange_def)

section \<open>Column letters\<close>

lemma upper_letter_value:
  assumes "isUpperAZ c"
  shows "(1::int) \<le> of_char c - 64 \<and> (of_char c :: int) - 64 \<le> 26"
proof -
  have "(of_char c :: int) = int (of_char c :: nat)" by (simp add: of_char_def)
  with assms show ?thesis by (simp add: isUpperAZ_def)
qed

lemma indexToColumn_loop_last_letter:
  assumes "isUpperAZ c" "0 \<le> v"
  shows "indexToColumn_loop (v * 26 + (of_char c - 64)) col = indexToColumn_loop v (c # col)"
proof -
  define d where "d = (of_char c :: int) - 64"
  have d: "1 \<le> d" "d \<le> 26" using upper_letter_value[OF assms(1)] by (simp_all add: d_def)
  have pos: "v * 26 + d > 0" using assms(2) d by simp
  have dv: "(v * 26 + d - 1) div 26 = v" using d by simp
  have "(v * 26 + d - 1) mod 26 = (d - 1 + v * 26) mod 26" by (simp add: algebra_simps)
  also have "\<dots> = (d - 1) mod 26" by (simp only: mod_mult_self1)
  also have "\<dots> = d - 1" using d by simp
  finally have md: "(v * 26 + d - 1) mod 26 = d - 1" .
  have ch: "char_of (d - 1 + 65) = c" by (simp add: d_def)
  show ?thesis
    using pos dv md ch
    by (subst indexToColumn_loop.simps) (simp add: d_def[symmetric])
qed

lemma letters_value_nonneg:
  "list_all isUpperAZ s \<Longrightarrow> 0 \<le> acc
     \<Longrightarrow> 0 \<le> foldl (\<lambda>acc c. acc * 26 + ((of_char c :: int) - 64)) acc s"
proof (induction s arbitrary: acc)
  case Nil
  then show ?case by simp
next
  case (Cons a s)
  then show ?case using upper_letter_value[of a] by simp
qed

lemma indexToColumn_loop_letters:
  "list_all isUpperAZ s
     \<Longrightarrow> indexToColumn_loop (foldl (\<lambda>acc c. acc * 26 + (of_char c - 64)) 0 s) col = s @ col"
proof (induction s arbitrary: col rule: rev_induct)
  case Nil
  show ?case by (subst indexToColumn_loop.simps) simp
next
  case (snoc c s)
  then show ?case
    using indexToColumn_loop_last_letter[of c _ col] letters_value_nonneg[of s 0] by simp
qed

lemma column_roundtrip_any_length:
  "list_all isUpperAZ s \<Longrightarrow> indexToColumn (columnToIndex s) = s"
  using indexToColumn_loop_letters[of s "[]"] by (simp add: indexToColumn_def columnToIndex_def)

text \<open>
  Claim C4. Column letters are bijective base 26 with A = 0, Z = 25, AA = 26:
  \<open>indexToColumn\<close> maps 0, 25 and 26 to A, Z and AA, and for every valid column
  string of at most three letters, the index of the string converted back by
  \<open>indexToColumn\<close> is the string itself. The conversion to the index is the one the
  spec fixes; \<open>indexToColumn\<close> is the source's loop.
\<close>

theorem column_letters_roundtrip:
  "indexToColumn 0 = ''A'' \<and> indexToColumn 25 = ''Z'' \<and> indexToColumn 26 = ''AA''
   \<and> (\<forall>s. validColumn s \<and> length s \<le> 3 \<longrightarrow> indexToColumn (columnToIndex s) = s)"
proof -
  have a: "indexToColumn 0 = ''A''" by code_simp
  have z: "indexToColumn 25 = ''Z''" by code_simp
  have aa: "indexToColumn 26 = ''AA''" by code_simp
  have rt: "\<forall>s. validColumn s \<and> length s \<le> 3 \<longrightarrow> indexToColumn (columnToIndex s) = s"
    by (simp add: validColumn_def column_roundtrip_any_length)
  show ?thesis using a z aa rt by simp
qed

theorem column_letters_roundtrip_witness:
  "validColumn ''ZZZ'' \<and> length ''ZZZ'' \<le> 3 \<and> columnToIndex ''ZZZ'' = 18277
   \<and> indexToColumn (columnToIndex ''ZZZ'') = ''ZZZ''"
proof -
  have v: "validColumn ''ZZZ''" by (simp add: validColumn_def isUpperAZ_def)
  have n: "columnToIndex ''ZZZ'' = 18277" by (simp add: columnToIndex_def)
  from column_letters_roundtrip
  have "validColumn ''ZZZ'' \<and> length ''ZZZ'' \<le> 3
          \<longrightarrow> indexToColumn (columnToIndex ''ZZZ'') = ''ZZZ''"
    by blast
  with v n show ?thesis by simp
qed

section \<open>Row insertion\<close>

text \<open>
  Claim C3. For an anchor whose parsed range starts at row index \<open>r\<close> (zero-based; an
  absent start row counts as 0) and a requested row count \<open>k\<close>, the first call the
  handler dispatches is one \<open>insertDimension\<close> over ROWS of the resolved sheet with
  \<open>startIndex = r\<close> for BEFORE and \<open>r + 1\<close> for AFTER, and \<open>endIndex = startIndex + k\<close>
  in both cases. The witness is the anchor at row index 4 with two rows AFTER: the span
  is 5 to 7.
\<close>

theorem insert_rows_span:
  assumes "extractSheetName h (ir_range inp) = Inr (sn, cr)"
    and "getSheetId h (ir_spreadsheetId inp) sn = Inr sid"
    and "parseRange h cr sid = Inr g"
    and "r = orElse (startRowIndex g) 0"
    and "k = ir_rows inp"
    and "start = (case ir_position inp of BEFORE \<Rightarrow> r | AFTER \<Rightarrow> r + 1)"
  shows "\<exists>later. fst (handleInsertRows h client inp) =
           BatchUpdate (ir_spreadsheetId inp)
             [InsertDimension
                \<lparr>id_range = \<lparr>dr_sheetId = sid, dr_dimension = ''ROWS'',
                              dr_startIndex = start, dr_endIndex = start + k\<rparr>,
                 id_inheritFromBefore = ir_inheritFromBefore inp\<rparr>] # later"
proof -
  have st: "(if ir_position inp = AFTER then r + 1 else r) = start"
    using assms(6) by (cases "ir_position inp") simp_all
  show ?thesis
    unfolding handleInsertRows_def
    using assms(1-5) st
    by (auto simp: Let_def split: sum.splits option.splits list.splits)
qed

theorem insert_rows_span_witness:
  "parseRange (specHelpers [(''Sheet1'', 0)]) ''A5'' 0 =
     Inr \<lparr>sheetId = Some 0, startRowIndex = Some 4, endRowIndex = Some 4,
          startColumnIndex = Some 0, endColumnIndex = Some 0\<rparr>
   \<and> (\<exists>later. fst (handleInsertRows (specHelpers [(''Sheet1'', 0)]) (okClient \<lparr>sheets = None\<rparr>)
                \<lparr>ir_spreadsheetId = ''doc'', ir_range = ''Sheet1!A5'', ir_rows = 2,
                 ir_position = AFTER, ir_inheritFromBefore = False, ir_values = None,
                 ir_valueInputOption = USER_ENTERED\<rparr>) =
           BatchUpdate ''doc''
             [InsertDimension
                \<lparr>id_range = \<lparr>dr_sheetId = 0, dr_dimension = ''ROWS'',
                              dr_startIndex = 5, dr_endIndex = 7\<rparr>,
                 id_inheritFromBefore = False\<rparr>] # later)"
  using insert_rows_span
    [of "specHelpers [(''Sheet1'', 0)]"
        "\<lparr>ir_spreadsheetId = ''doc'', ir_range = ''Sheet1!A5'', ir_rows = 2,
          ir_position = AFTER, ir_inheritFromBefore = False, ir_values = None,
          ir_valueInputOption = USER_ENTERED\<rparr>"
        "Some ''Sheet1''" "''A5''" 0
        "\<lparr>sheetId = Some 0, startRowIndex = Some 4, endRowIndex = Some 4,
          startColumnIndex = Some 0, endColumnIndex = Some 0\<rparr>"
        4 2 5 "okClient \<lparr>sheets = None\<rparr>"]
  by (simp add: extract_examples resolve_example parse_examples orElse_def)

section \<open>The fixed-rectangle pattern\<close>

lemma digit_not_upper: "isDigit c \<Longrightarrow> \<not> isUpperAZ c"
  by (simp add: isDigit_def isUpperAZ_def)

lemma upper_not_digit: "isUpperAZ c \<Longrightarrow> \<not> isDigit c"
  by (simp add: isDigit_def isUpperAZ_def)

lemma colon_class: "\<not> isDigit CHR '':''" "\<not> isUpperAZ CHR '':''"
  by (simp_all add: isDigit_def isUpperAZ_def)

lemma run_prefix:
  assumes "list_all P xs" and "ys = [] \<or> \<not> P (hd ys)"
  shows "takeWhile P (xs @ ys) = xs" and "dropWhile P (xs @ ys) = ys"
proof -
  have a: "\<forall>x\<in>set xs. P x" using assms(1) by (simp add: list_all_iff)
  have t: "takeWhile P ys = []" using assms(2) by (cases ys) auto
  have d: "dropWhile P ys = ys" using assms(2) by (cases ys) auto
  show "takeWhile P (xs @ ys) = xs" using a t by (simp add: takeWhile_append2)
  show "dropWhile P (xs @ ys) = ys" using a d by (simp add: dropWhile_append2)
qed

text \<open>A string that is letters, digits, a colon, letters, digits matches with these groups.\<close>

lemma matchRect_exact:
  assumes "l1 \<noteq> []" "list_all isUpperAZ l1" "d1 \<noteq> []" "list_all isDigit d1"
    and "l2 \<noteq> []" "list_all isUpperAZ l2" "d2 \<noteq> []" "list_all isDigit d2"
    and "rest = [] \<or> \<not> isDigit (hd rest)"
  shows "matchRect (l1 @ d1 @ CHR '':'' # l2 @ d2 @ rest) = Some (l1, d1, l2, d2, rest)"
proof -
  have hd1: "isDigit (hd d1)" using assms(3,4) by (cases d1) simp_all
  have hd2: "isDigit (hd d2)" using assms(7,8) by (cases d2) simp_all
  have s1: "takeWhile isUpperAZ (l1 @ d1 @ CHR '':'' # l2 @ d2 @ rest) = l1"
    "dropWhile isUpperAZ (l1 @ d1 @ CHR '':'' # l2 @ d2 @ rest) = d1 @ CHR '':'' # l2 @ d2 @ rest"
    using run_prefix[OF assms(2), of "d1 @ CHR '':'' # l2 @ d2 @ rest"] hd1 assms(3)
    by (simp_all add: digit_not_upper)
  have s2: "takeWhile isDigit (d1 @ CHR '':'' # l2 @ d2 @ rest) = d1"
    "dropWhile isDigit (d1 @ CHR '':'' # l2 @ d2 @ rest) = CHR '':'' # l2 @ d2 @ rest"
    using run_prefix[OF assms(4), of "CHR '':'' # l2 @ d2 @ rest"] by (simp_all add: colon_class)
  have s3: "takeWhile isUpperAZ (l2 @ d2 @ rest) = l2"
    "dropWhile isUpperAZ (l2 @ d2 @ rest) = d2 @ rest"
    using run_prefix[OF assms(6), of "d2 @ rest"] hd2 assms(7)
    by (simp_all add: digit_not_upper)
  have s4: "takeWhile isDigit (d2 @ rest) = d2" "dropWhile isDigit (d2 @ rest) = rest"
    using run_prefix[OF assms(8), of rest] assms(9) by simp_all
  show ?thesis
    unfolding matchRect_def by (simp add: s1 s2 s3 s4 Let_def assms)
qed

text \<open>Conversely, a match splits the string into its groups.\<close>

lemma matchRect_sound:
  assumes "matchRect s = Some (l1, d1, l2, d2, rest)"
  shows "s = l1 @ d1 @ CHR '':'' # l2 @ d2 @ rest
         \<and> l1 \<noteq> [] \<and> list_all isUpperAZ l1 \<and> d1 \<noteq> [] \<and> list_all isDigit d1
         \<and> l2 \<noteq> [] \<and> list_all isUpperAZ l2 \<and> d2 \<noteq> [] \<and> list_all isDigit d2"
proof -
  define r1 where "r1 = dropWhile isUpperAZ s"
  define r2 where "r2 = dropWhile isDigit r1"
  from assms obtain r3 where r2: "r2 = CHR '':'' # r3"
    and g: "l1 = takeWhile isUpperAZ s" "d1 = takeWhile isDigit r1"
    "l2 = takeWhile isUpperAZ r3" "d2 = takeWhile isDigit (dropWhile isUpperAZ r3)"
    "rest = dropWhile isDigit (dropWhile isUpperAZ r3)"
    and ne: "l1 \<noteq> []" "d1 \<noteq> []" "l2 \<noteq> []" "d2 \<noteq> []"
    unfolding matchRect_def r1_def r2_def
    by (auto simp: Let_def split: if_splits list.splits)
  have "s = l1 @ r1" by (simp add: g r1_def)
  moreover have "r1 = d1 @ r2" by (simp add: g r2_def)
  moreover have "r3 = l2 @ d2 @ rest" by (simp add: g)
  ultimately have "s = l1 @ d1 @ CHR '':'' # l2 @ d2 @ rest" using r2 by simp
  moreover have "list_all isUpperAZ l1" "list_all isDigit d1"
    "list_all isUpperAZ l2" "list_all isDigit d2"
    by (auto simp: g list_all_iff dest: set_takeWhileD)
  ultimately show ?thesis using ne by simp
qed

lemma tailGroups_rect:
  assumes "l1 \<noteq> []" "list_all isUpperAZ l1" "list_all isDigit d1"
    and "l2 \<noteq> []" "list_all isUpperAZ l2" "list_all isDigit d2"
  shows "tailGroups (pre @ l1 @ d1 @ CHR '':'' # l2 @ d2) = (d1, l2, d2)"
proof -
  let ?r = "rev d2 @ rev l2 @ CHR '':'' # rev d1 @ rev l1 @ rev pre"
  have r: "rev (pre @ l1 @ d1 @ CHR '':'' # l2 @ d2) = ?r" by simp
  have h2: "isUpperAZ (hd (rev l2))" using assms(4,5) by (cases l2 rule: rev_cases) simp_all
  have h1: "isUpperAZ (hd (rev l1))" using assms(1,2) by (cases l1 rule: rev_cases) simp_all
  have a: "takeWhile isDigit ?r = rev d2"
    "dropWhile isDigit ?r = rev l2 @ CHR '':'' # rev d1 @ rev l1 @ rev pre"
    using run_prefix[of isDigit "rev d2" "rev l2 @ CHR '':'' # rev d1 @ rev l1 @ rev pre"]
      assms(4,6) h2
    by (simp_all add: upper_not_digit)
  have b: "takeWhile isUpperAZ (rev l2 @ CHR '':'' # rev d1 @ rev l1 @ rev pre) = rev l2"
    "dropWhile isUpperAZ (rev l2 @ CHR '':'' # rev d1 @ rev l1 @ rev pre)
       = CHR '':'' # rev d1 @ rev l1 @ rev pre"
    using run_prefix[of isUpperAZ "rev l2" "CHR '':'' # rev d1 @ rev l1 @ rev pre"] assms(5)
    by (simp_all add: colon_class)
  have c: "takeWhile isDigit (rev d1 @ rev l1 @ rev pre) = rev d1"
    using run_prefix(1)[of isDigit "rev d1" "rev l1 @ rev pre"] assms(1,3) h1
    by (simp add: upper_not_digit)
  show ?thesis
    unfolding tailGroups_def r by (simp add: a b c Let_def)
qed

text \<open>
  Whatever precedes the rectangle, the leftmost anchored match has the rectangle's two
  row groups.
\<close>

lemma search_rect_end:
  assumes "l1 \<noteq> []" "list_all isUpperAZ l1" "d1 \<noteq> []" "list_all isDigit d1"
    and "l2 \<noteq> []" "list_all isUpperAZ l2" "d2 \<noteq> []" "list_all isDigit d2"
  shows "\<exists>g1 g3. regexSearch matchRectEnd (pre @ l1 @ d1 @ CHR '':'' # l2 @ d2)
                   = Some (g1, d1, g3, d2, [])"
proof (induction pre)
  case Nil
  have m: "matchRectEnd (l1 @ d1 @ CHR '':'' # l2 @ d2) = Some (l1, d1, l2, d2, [])"
    using matchRect_exact[OF assms, of "[]"] by (simp add: matchRectEnd_def)
  obtain c cs where s: "l1 @ d1 @ CHR '':'' # l2 @ d2 = c # cs"
    using assms(1) by (cases l1) auto
  show ?case using m unfolding s by simp
next
  case (Cons c pre)
  let ?s = "(c # pre) @ l1 @ d1 @ CHR '':'' # l2 @ d2"
  show ?case
  proof (cases "matchRectEnd ?s")
    case None
    then show ?thesis using Cons.IH by simp
  next
    case (Some r)
    obtain g1 g2 g3 g4 rest where r: "r = (g1, g2, g3, g4, rest)" by (cases r) auto
    from Some r have mr: "matchRect ?s = Some (g1, g2, g3, g4, rest)" and e: "rest = []"
      by (auto simp: matchRectEnd_def split: option.splits if_splits)
    note parts = matchRect_sound[OF mr]
    have "tailGroups ?s = (g2, g3, g4)"
      using tailGroups_rect[of g1 g2 g3 g4 "[]"] parts e by simp
    moreover have "tailGroups ?s = (d1, l2, d2)"
      using tailGroups_rect[of l1 d1 l2 d2 "c # pre"] assms by simp
    ultimately have "g2 = d1" "g4 = d2" by simp_all
    then show ?thesis using Some r e by simp
  qed
qed

lemma no_colon_no_match_here: "CHR '':'' \<notin> set s \<Longrightarrow> matchRectEnd s = None"
proof (rule ccontr)
  assume a: "CHR '':'' \<notin> set s" and "matchRectEnd s \<noteq> None"
  then obtain l1 d1 l2 d2 rest where "matchRect s = Some (l1, d1, l2, d2, rest)"
    by (auto simp: matchRectEnd_def split: option.splits if_splits)
  from matchRect_sound[OF this] have "CHR '':'' \<in> set s" by simp
  with a show False by simp
qed

text \<open>A range without a colon (a single cell, an open anchor) never matches.\<close>

lemma no_colon_no_match: "CHR '':'' \<notin> set s \<Longrightarrow> regexSearch matchRectEnd s = None"
  by (induction s) (simp_all add: no_colon_no_match_here)

text \<open>A match found by the search is a match at some suffix of the input.\<close>

lemma regexSearch_Some:
  "regexSearch m s = Some r \<Longrightarrow> \<exists>pre suf. s = pre @ suf \<and> m suf = Some r"
proof (induction s)
  case Nil
  then show ?case by simp
next
  case (Cons c cs)
  show ?case
  proof (cases "m (c # cs)")
    case None
    with Cons.prems have "regexSearch m cs = Some r" by simp
    from Cons.IH[OF this] obtain pre suf where "cs = pre @ suf" "m suf = Some r" by blast
    then have "c # cs = (c # pre) @ suf \<and> m suf = Some r" by simp
    then show ?thesis by blast
  next
    case (Some x)
    with Cons.prems have "m (c # cs) = Some r" by simp
    then have "c # cs = [] @ (c # cs) \<and> m (c # cs) = Some r" by simp
    then show ?thesis by blast
  qed
qed

text \<open>
  The anchored pattern matches exactly the ranges that end in
  letters-digits:letters-digits.
\<close>

lemma fixed_rectangle_iff:
  "(regexSearch matchRectEnd s \<noteq> None) =
     (\<exists>pre l1 d1 l2 d2.
        s = pre @ l1 @ d1 @ '':'' @ l2 @ d2
        \<and> l1 \<noteq> [] \<and> list_all isUpperAZ l1 \<and> d1 \<noteq> [] \<and> list_all isDigit d1
        \<and> l2 \<noteq> [] \<and> list_all isUpperAZ l2 \<and> d2 \<noteq> [] \<and> list_all isDigit d2)"
proof
  assume "regexSearch matchRectEnd s \<noteq> None"
  then obtain r where "regexSearch matchRectEnd s = Some r" by auto
  from regexSearch_Some[OF this] obtain pre suf
    where s: "s = pre @ suf" and m: "matchRectEnd suf = Some r" by blast
  obtain l1 d1 l2 d2 rest where r: "r = (l1, d1, l2, d2, rest)" by (cases r) auto
  from m r have mr: "matchRect suf = Some (l1, d1, l2, d2, rest)" and e: "rest = []"
    by (auto simp: matchRectEnd_def split: option.splits if_splits)
  from matchRect_sound[OF mr] e s
  have "s = pre @ l1 @ d1 @ '':'' @ l2 @ d2
        \<and> l1 \<noteq> [] \<and> list_all isUpperAZ l1 \<and> d1 \<noteq> [] \<and> list_all isDigit d1
        \<and> l2 \<noteq> [] \<and> list_all isUpperAZ l2 \<and> d2 \<noteq> [] \<and> list_all isDigit d2"
    by simp
  then show "\<exists>pre l1 d1 l2 d2.
        s = pre @ l1 @ d1 @ '':'' @ l2 @ d2
        \<and> l1 \<noteq> [] \<and> list_all isUpperAZ l1 \<and> d1 \<noteq> [] \<and> list_all isDigit d1
        \<and> l2 \<noteq> [] \<and> list_all isUpperAZ l2 \<and> d2 \<noteq> [] \<and> list_all isDigit d2"
    by blast
next
  assume "\<exists>pre l1 d1 l2 d2.
        s = pre @ l1 @ d1 @ '':'' @ l2 @ d2
        \<and> l1 \<noteq> [] \<and> list_all isUpperAZ l1 \<and> d1 \<noteq> [] \<and> list_all isDigit d1
        \<and> l2 \<noteq> [] \<and> list_all isUpperAZ l2 \<and> d2 \<noteq> [] \<and> list_all isDigit d2"
  then obtain pre l1 d1 l2 d2 where s: "s = pre @ l1 @ d1 @ '':'' @ l2 @ d2"
    and c: "l1 \<noteq> []" "list_all isUpperAZ l1" "d1 \<noteq> []" "list_all isDigit d1"
       "l2 \<noteq> []" "list_all isUpperAZ l2" "d2 \<noteq> []" "list_all isDigit d2"
    by blast
  from search_rect_end[OF c, of pre] s show "regexSearch matchRectEnd s \<noteq> None" by auto
qed

section \<open>Value update\<close>

text \<open>Integers up to \<open>2^53\<close> in magnitude are numbers as they are.\<close>

lemma toNumber_exact:
  assumes "\<bar>i\<bar> \<le> 2 ^ 53"
  shows "toNumber i = Num i"
proof -
  have n: "nat \<bar>i\<bar> \<le> 2 ^ 53" using assms by simp
  then have r: "roundMagnitude (nat \<bar>i\<bar>) = nat \<bar>i\<bar>" by (simp add: roundMagnitude_def)
  have "(2::nat) ^ 53 < 2 ^ 1024" by (rule power_strict_increasing) simp_all
  with n have small: "\<not> (2::nat) ^ 1024 \<le> nat \<bar>i\<bar>" by linarith
  show ?thesis unfolding toNumber_def r Let_def using small by auto
qed

lemma digit_value:
  assumes "isDigit c"
  shows "(0::int) \<le> of_char c - 48"
proof -
  have "(of_char c :: int) = int (of_char c :: nat)" by (simp add: of_char_def)
  with assms show ?thesis by (simp add: isDigit_def)
qed

lemma digits_fold_nonneg:
  "list_all isDigit s \<Longrightarrow> 0 \<le> acc
     \<Longrightarrow> 0 \<le> foldl (\<lambda>acc c. acc * 10 + ((of_char c :: int) - 48)) acc s"
proof (induction s arbitrary: acc)
  case Nil
  then show ?case by simp
next
  case (Cons a s)
  then show ?case using digit_value[of a] by simp
qed

lemma digitsValue_nonneg: "list_all isDigit s \<Longrightarrow> 0 \<le> digitsValue s"
  using digits_fold_nonneg[of s 0] by (simp add: digitsValue_def)

text \<open>For row numbers below \<open>2^53\<close> the expected row count is computed exactly.\<close>

lemma expected_rows_exact:
  assumes "0 \<le> a" "a < 2 ^ 53" "0 \<le> b" "b < 2 ^ 53"
  shows "jsAdd (jsSub (toNumber b) (toNumber a)) (Num 1) = Num (b - a + 1)"
proof -
  have ta: "toNumber a = Num a" and tb: "toNumber b = Num b"
    using assms by (simp_all add: toNumber_exact)
  have d: "\<bar>b - a\<bar> \<le> 2 ^ 53" using assms by linarith
  have d1: "\<bar>b - a + 1\<bar> \<le> 2 ^ 53" using assms by linarith
  show ?thesis by (simp add: ta tb toNumber_exact[OF d] toNumber_exact[OF d1])
qed


text \<open>The first integer that is not a number, \<open>2^53 + 1\<close>, parses to \<open>2^53\<close>.\<close>

lemma bitLength_between:
  "2 ^ k \<le> n \<Longrightarrow> n < 2 ^ Suc k \<Longrightarrow> bitLength n = Suc k"
proof (induction k arbitrary: n)
  case 0
  then have "n = 1" by simp
  then show ?case
    by (simp add: bitLength.simps[of "Suc 0"] bitLength.simps[of 0])
next
  case (Suc k)
  have "(0::nat) < 2 ^ Suc k" by simp
  with Suc.prems(1) have pos: "n \<noteq> 0" by linarith
  have lo: "2 ^ k \<le> n div 2" using Suc.prems(1) by simp
  have hi: "n div 2 < 2 ^ Suc k" using Suc.prems(2) by simp
  have "bitLength (n div 2) = Suc k" using Suc.IH[OF lo hi] .
  then show ?case using pos by (subst bitLength.simps) simp
qed

lemma bitLength_example: "bitLength 9007199254740993 = 54"
proof -
  have "bitLength 9007199254740993 = Suc 53"
    by (rule bitLength_between) simp_all
  then show ?thesis by simp
qed

lemma round_example: "roundMagnitude 9007199254740993 = 9007199254740992"
  unfolding roundMagnitude_def bitLength_example Let_def by simp

lemma digits_examples:
  "digitsValue ''9007199254740992'' = 9007199254740992"
  "digitsValue ''9007199254740993'' = 9007199254740993"
  by (simp_all add: digitsValue_def)

lemma small_enough: "\<not> (2::nat) ^ 1024 \<le> 9007199254740992"
proof -
  have "(9007199254740992::nat) = 2 ^ 53" by simp
  moreover have "(2::nat) ^ 53 < 2 ^ 1024" by (rule power_strict_increasing) simp_all
  ultimately show ?thesis by linarith
qed

lemma parse_beyond_exact:
  "parseInt10 ''9007199254740992'' = Num 9007199254740992"
  "parseInt10 ''9007199254740993'' = Num 9007199254740992"
proof -
  show "parseInt10 ''9007199254740992'' = Num 9007199254740992"
    unfolding parseInt10_def digits_examples by (rule toNumber_exact) simp
  have n: "nat \<bar>9007199254740993::int\<bar> = 9007199254740993" by simp
  show "parseInt10 ''9007199254740993'' = Num 9007199254740992"
    unfolding parseInt10_def digits_examples toNumber_def n round_example Let_def
    using small_enough by simp
qed

lemma big_match:
  "regexSearch matchRectEnd ''A9007199254740992:B9007199254740993''
     = Some (''A'', ''9007199254740992'', ''B'', ''9007199254740993'', [])"
  by (simp add: matchRectEnd_def matchRect_def isUpperAZ_def isDigit_def Let_def)


text \<open>
  Claim C5, as stated, at the range \<open>A9007199254740992:B9007199254740993\<close> with a
  payload of one row. The range ends in a fixed rectangle that is two rows tall, so the
  row count differs from the rectangle's height; but both row numbers parse to
  \<open>2^53\<close>, the expected row count comes out as 1, no error is thrown and the update
  is dispatched.
\<close>

theorem update_values_rounded_rows_dispatch:
  "fst (handleUpdateValues (okClient \<lparr>sheets = None\<rparr>)
          \<lparr>uv_spreadsheetId = ''doc'', uv_range = ''A9007199254740992:B9007199254740993'',
           uv_values = [[''x'']], uv_valueInputOption = USER_ENTERED\<rparr>) =
     [ValuesUpdate \<lparr>vu_spreadsheetId = ''doc'',
                     vu_range = ''A9007199254740992:B9007199254740993'',
                     vu_valueInputOption = USER_ENTERED, vu_values = [[''x'']]\<rparr>]
   \<and> digitsValue ''9007199254740993'' - digitsValue ''9007199254740992'' + 1 = 2
   \<and> int (length [[''x'']]) = 1"
proof -
  have z: "toNumber 0 = Num 0" "toNumber 1 = Num 1"
    by (simp_all add: toNumber_exact)
  have e: "jsAdd (jsSub (parseInt10 ''9007199254740993'') (parseInt10 ''9007199254740992'')) (Num 1)
             = Num 1"
    unfolding parse_beyond_exact by (simp add: z)
  have v: "validateRangeRowCount ''A9007199254740992:B9007199254740993'' [[''x'']] = Inr ()"
    unfolding validateRangeRowCount_def big_match
    by (simp add: Let_def e strictNotEqual_def)
  show ?thesis
    by (simp add: handleUpdateValues_def v Let_def okClient_def digits_examples)
qed

text \<open>
  Claim C5, amended. When the range of \<open>sheets_update_values\<close> ends in a fixed
  rectangle letters-digits:letters-digits (whatever precedes it, such as a sheet
  qualifier) whose two row numbers are below \<open>2^53\<close>, and the payload's row count
  differs from the rectangle's height \<open>endRow - startRow + 1\<close>, the handler ends with
  the row-count-mismatch error and has dispatched no backend call. The witness is
  \<open>Sheet1!A1:B2\<close> with three rows.
\<close>

theorem update_values_row_mismatch:
  assumes "uv_range inp = pre @ l1 @ d1 @ '':'' @ l2 @ d2"
    and "l1 \<noteq> []" "list_all isUpperAZ l1" "d1 \<noteq> []" "list_all isDigit d1"
    and "l2 \<noteq> []" "list_all isUpperAZ l2" "d2 \<noteq> []" "list_all isDigit d2"
    and "digitsValue d1 < 2 ^ 53" "digitsValue d2 < 2 ^ 53"
    and "int (length (uv_values inp)) \<noteq> digitsValue d2 - digitsValue d1 + 1"
  shows "handleUpdateValues client inp =
           ([], Inl (RangeMismatch (uv_range inp) (Num (digitsValue d2 - digitsValue d1 + 1))
                       (int (length (uv_values inp)))))"
proof -
  obtain g1 g3 where m: "regexSearch matchRectEnd (uv_range inp) = Some (g1, d1, g3, d2, [])"
    using search_rect_end[OF assms(2-9), of pre] assms(1) by auto
  have e: "jsAdd (jsSub (parseInt10 d2) (parseInt10 d1)) (Num 1)
             = Num (digitsValue d2 - digitsValue d1 + 1)"
    unfolding parseInt10_def
    using expected_rows_exact[OF digitsValue_nonneg[OF assms(5)] assms(10)
        digitsValue_nonneg[OF assms(9)] assms(11)] .
  have v: "validateRangeRowCount (uv_range inp) (uv_values inp) =
             Inl (RangeMismatch (uv_range inp) (Num (digitsValue d2 - digitsValue d1 + 1))
                    (int (length (uv_values inp))))"
    unfolding validateRangeRowCount_def using m assms(4,8,12)
    by (simp add: Let_def e strictNotEqual_def)
  show ?thesis unfolding handleUpdateValues_def by (simp add: v)
qed

theorem update_values_row_mismatch_witness:
  "handleUpdateValues (okClient \<lparr>sheets = None\<rparr>)
     \<lparr>uv_spreadsheetId = ''doc'', uv_range = ''Sheet1!A1:B2'',
      uv_values = [[''a'', ''b''], [''c'', ''d''], [''e'', ''f'']],
      uv_valueInputOption = USER_ENTERED\<rparr>
   = ([], Inl (RangeMismatch ''Sheet1!A1:B2'' (Num 2) 3))"
  using update_values_row_mismatch
    [of "\<lparr>uv_spreadsheetId = ''doc'', uv_range = ''Sheet1!A1:B2'',
          uv_values = [[''a'', ''b''], [''c'', ''d''], [''e'', ''f'']],
          uv_valueInputOption = USER_ENTERED\<rparr>"
        "''Sheet1!''" "''A''" "''1''" "''B''" "''2''" "okClient \<lparr>sheets = None\<rparr>"]
  by (simp add: isUpperAZ_def isDigit_def digitsValue_def)

text \<open>
  Claim C10. Row-count validation happens only for a range that ends in
  letters-digits:letters-digits. For every range the anchored pattern does not match,
  \<open>validateRangeRowCount\<close> returns without error and the handler dispatches the update
  with the range and the payload as given, whatever the payload's row count. A single
  cell \<open>A1\<close>, a bare column range \<open>A:C\<close> and an open anchor \<open>A42\<close> are such ranges.
\<close>

theorem update_values_flexible_range:
  "(regexSearch matchRectEnd (uv_range inp) = None \<longrightarrow>
      validateRangeRowCount (uv_range inp) (uv_values inp) = Inr ()
      \<and> fst (handleUpdateValues client inp) =
          [ValuesUpdate \<lparr>vu_spreadsheetId = uv_spreadsheetId inp,
                          vu_range = uv_range inp,
                          vu_valueInputOption = uv_valueInputOption inp,
                          vu_values = uv_values inp\<rparr>])
   \<and> regexSearch matchRectEnd ''A1'' = None
   \<and> regexSearch matchRectEnd ''A:C'' = None
   \<and> regexSearch matchRectEnd ''A42'' = None"
proof -
  have main: "regexSearch matchRectEnd (uv_range inp) = None \<longrightarrow>
      validateRangeRowCount (uv_range inp) (uv_values inp) = Inr ()
      \<and> fst (handleUpdateValues client inp) =
          [ValuesUpdate \<lparr>vu_spreadsheetId = uv_spreadsheetId inp,
                          vu_range = uv_range inp,
                          vu_valueInputOption = uv_valueInputOption inp,
                          vu_values = uv_values inp\<rparr>]"
  proof
    assume n: "regexSearch matchRectEnd (uv_range inp) = None"
    have v: "validateRangeRowCount (uv_range inp) (uv_values inp) = Inr ()"
      unfolding validateRangeRowCount_def using n by simp
    show "validateRangeRowCount (uv_range inp) (uv_values inp) = Inr ()
      \<and> fst (handleUpdateValues client inp) =
          [ValuesUpdate \<lparr>vu_spreadsheetId = uv_spreadsheetId inp,
                          vu_range = uv_range inp,
                          vu_valueInputOption = uv_valueInputOption inp,
                          vu_values = uv_values inp\<rparr>]"
      unfolding handleUpdateValues_def by (simp add: v Let_def split: sum.splits)
  qed
  have e1: "regexSearch matchRectEnd ''A1'' = None" by (rule no_colon_no_match) simp
  have e2: "regexSearch matchRectEnd ''A:C'' = None"
    by (simp add: matchRectEnd_def matchRect_def isUpperAZ_def isDigit_def Let_def)
  have e3: "regexSearch matchRectEnd ''A42'' = None" by (rule no_colon_no_match) simp
  show ?thesis using main e1 e2 e3 by simp
qed

theorem update_values_flexible_range_witness:
  "regexSearch matchRectEnd ''A42'' = None
   \<and> fst (handleUpdateValues (okClient \<lparr>sheets = None\<rparr>)
          \<lparr>uv_spreadsheetId = ''doc'', uv_range = ''A42'',
           uv_values = [[''a''], [''b''], [''c'']],
           uv_valueInputOption = USER_ENTERED\<rparr>) =
       [ValuesUpdate \<lparr>vu_spreadsheetId = ''doc'', vu_range = ''A42'',
                       vu_valueInputOption = USER_ENTERED,
                       vu_values = [[''a''], [''b''], [''c'']]\<rparr>]"
  using update_values_flexible_range
    [of "\<lparr>uv_spreadsheetId = ''doc'', uv_range = ''A42'',
          uv_values = [[''a''], [''b''], [''c'']],
          uv_valueInputOption = USER_ENTERED\<rparr>"
        "okClient \<lparr>sheets = None\<rparr>"]
  by simp

section \<open>Cell formatting\<close>

text \<open>
  Claim C6. For a \<open>sheets_format_cells\<close> input whose format holds only
  \<open>textFormat: {bold: true}\<close>, the \<open>userEnteredFormat\<close> of the one \<open>repeatCell\<close>
  request holds the key \<open>textFormat\<close> with the single key \<open>bold\<close>, and no
  background colour, alignment, wrap strategy, number format or padding key.
\<close>

theorem format_bold_only:
  assumes "extractSheetName h (fc_range inp) = Inr (sn, cr)"
    and "getSheetId h (fc_spreadsheetId inp) sn = Inr sid"
    and "parseRange h cr sid = Inr g"
    and "fc_format inp = boldOnly"
  shows "fst (formatCellsHandler h client inp) =
           [BatchUpdate (fc_spreadsheetId inp)
              [RepeatCell
                 \<lparr>rc_range = g,
                  rc_userEnteredFormat =
                    \<lparr>backgroundColor = None,
                     textFormat = Some \<lparr>foregroundColor = None, fontFamily = None,
                                         fontSize = None, bold = Some True, italic = None,
                                         strikethrough = None, underline = None\<rparr>,
                     horizontalAlignment = None, verticalAlignment = None,
                     wrapStrategy = None, numberFormat = None, padding = None\<rparr>,
                  rc_fields = ''userEnteredFormat''\<rparr>]]"
  unfolding formatCellsHandler_def
  using assms
  by (simp add: Let_def buildCellFormat_def buildTextFormat_def boldOnly_def noFormat_def
      noTextFormat_def)

theorem format_bold_only_witness:
  "fc_format \<lparr>fc_spreadsheetId = ''doc'', fc_range = ''Sheet1!A1:B2'', fc_format = boldOnly\<rparr>
     = boldOnly
   \<and> fst (formatCellsHandler (specHelpers [(''Sheet1'', 0)]) (okClient \<lparr>sheets = None\<rparr>)
         \<lparr>fc_spreadsheetId = ''doc'', fc_range = ''Sheet1!A1:B2'', fc_format = boldOnly\<rparr>) =
           [BatchUpdate ''doc''
              [RepeatCell
                 \<lparr>rc_range = \<lparr>sheetId = Some 0, startRowIndex = Some 0, endRowIndex = Some 1,
                               startColumnIndex = Some 0, endColumnIndex = Some 1\<rparr>,
                  rc_userEnteredFormat =
                    \<lparr>backgroundColor = None,
                     textFormat = Some \<lparr>foregroundColor = None, fontFamily = None,
                                         fontSize = None, bold = Some True, italic = None,
                                         strikethrough = None, underline = None\<rparr>,
                     horizontalAlignment = None, verticalAlignment = None,
                     wrapStrategy = None, numberFormat = None, padding = None\<rparr>,
                  rc_fields = ''userEnteredFormat''\<rparr>]]"
  using format_bold_only
    [of "specHelpers [(''Sheet1'', 0)]"
        "\<lparr>fc_spreadsheetId = ''doc'', fc_range = ''Sheet1!A1:B2'', fc_format = boldOnly\<rparr>"
        "Some ''Sheet1''" "''A1:B2''" 0
        "\<lparr>sheetId = Some 0, startRowIndex = Some 0, endRowIndex = Some 1,
          startColumnIndex = Some 0, endColumnIndex = Some 1\<rparr>"
        "okClient \<lparr>sheets = None\<rparr>"]
  by (simp add: extract_examples resolve_example parse_examples)

text \<open>The format object has exactly the keys of the input, in both handlers.\<close>

lemma buildCellFormat_keys:
  "backgroundColor (buildCellFormat f) = in_backgroundColor f"
  "(textFormat (buildCellFormat f) = None) = (in_textFormat f = None)"
  "horizontalAlignment (buildCellFormat f) = in_horizontalAlignment f"
  "verticalAlignment (buildCellFormat f) = in_verticalAlignment f"
  "wrapStrategy (buildCellFormat f) = in_wrapStrategy f"
  "(numberFormat (buildCellFormat f) = None) = (in_numberFormat f = None)"
  "padding (buildCellFormat f) = in_padding f"
  by (simp_all add: buildCellFormat_def split: option.splits)

text \<open>Every request of the batch command carries the same mask.\<close>

lemma buildFormatRequests_mask:
  "buildFormatRequests h sid frs = Inr rs
     \<Longrightarrow> list_all (\<lambda>r. case r of RepeatCell rc \<Rightarrow> rc_fields rc = ''userEnteredFormat''
                               | _ \<Rightarrow> False) rs"
proof (induction frs arbitrary: rs)
  case Nil
  then show ?case by simp
next
  case (Cons fr frs)
  then show ?case by (auto split: sum.splits prod.splits)
qed

text \<open>
  Claim C7. The claim is that attributes absent from the format input are left as they
  are on the backend, field by field. Both formatting handlers send the field mask
  \<open>userEnteredFormat\<close>, which names the whole format object, with a format object that
  holds only the attributes of the input: for a format with a background colour alone,
  the request names no text format, alignment or number format, and its mask is still
  the whole object.
\<close>

theorem format_mask_names_whole_object:
  "fst (formatCellsHandler (specHelpers [(''Sheet1'', 0)]) (okClient \<lparr>sheets = None\<rparr>)
         \<lparr>fc_spreadsheetId = ''doc'', fc_range = ''Sheet1!A1:B2'', fc_format = redOnly\<rparr>) =
     [BatchUpdate ''doc''
        [RepeatCell
           \<lparr>rc_range = \<lparr>sheetId = Some 0, startRowIndex = Some 0, endRowIndex = Some 1,
                         startColumnIndex = Some 0, endColumnIndex = Some 1\<rparr>,
            rc_userEnteredFormat =
              \<lparr>backgroundColor = Some \<lparr>red = Some 1, green = None, blue = None, alpha = None\<rparr>,
               textFormat = None, horizontalAlignment = None, verticalAlignment = None,
               wrapStrategy = None, numberFormat = None, padding = None\<rparr>,
            rc_fields = ''userEnteredFormat''\<rparr>]]
   \<and> fst (handleBatchFormatCells (specHelpers [(''Sheet1'', 0)]) (okClient \<lparr>sheets = None\<rparr>)
         \<lparr>bf_spreadsheetId = ''doc'',
          bf_formatRequests = [\<lparr>fr_range = ''Sheet1!A1:B2'', fr_format = redOnly\<rparr>]\<rparr>) =
     [BatchUpdate ''doc''
        [RepeatCell
           \<lparr>rc_range = \<lparr>sheetId = Some 0, startRowIndex = Some 0, endRowIndex = Some 1,
                         startColumnIndex = Some 0, endColumnIndex = Some 1\<rparr>,
            rc_userEnteredFormat =
              \<lparr>backgroundColor = Some \<lparr>red = Some 1, green = None, blue = None, alpha = None\<rparr>,
               textFormat = None, horizontalAlignment = None, verticalAlignment = None,
               wrapStrategy = None, numberFormat = None, padding = None\<rparr>,
            rc_fields = ''userEnteredFormat''\<rparr>]]"
  by (simp add: formatCellsHandler_def handleBatchFormatCells_def Let_def
      extract_examples resolve_example parse_examples
      buildCellFormat_def redOnly_def noFormat_def)

section \<open>Borders\<close>

lemma convertBorder_id: "convertBorder b = b"
  by (simp add: convertBorder_def split: option.splits)

text \<open>
  Claim C8. The \<open>updateBorders\<close> request carries each of the six edges exactly as the
  input has it: an edge key is present in the request exactly when it is present in the
  input, with the same style, colour and width. In particular an input with only
  \<open>top: {style: "NONE"}\<close> gives a request whose \<open>top\<close> has style NONE and which has
  none of the five other edge keys, so an explicit NONE edge differs from an omitted one.
\<close>

theorem borders_edges:
  assumes "extractSheetName h (bo_range inp) = Inr (sn, cr)"
    and "getSheetId h (bo_spreadsheetId inp) sn = Inr sid"
    and "parseRange h cr sid = Inr g"
  shows "\<exists>rq. fst (updateBordersHandler h client inp) =
                 [BatchUpdate (bo_spreadsheetId inp) [UpdateBorders rq]]
          \<and> ub_range rq = g
          \<and> ub_top rq = in_top (bo_borders inp)
          \<and> ub_bottom rq = in_bottom (bo_borders inp)
          \<and> ub_left rq = in_left (bo_borders inp)
          \<and> ub_right rq = in_right (bo_borders inp)
          \<and> ub_innerHorizontal rq = in_innerHorizontal (bo_borders inp)
          \<and> ub_innerVertical rq = in_innerVertical (bo_borders inp)
          \<and> (bo_borders inp =
                noBorders\<lparr>in_top := Some \<lparr>style = NONE, color = None, width = None\<rparr>\<rparr>
               \<longrightarrow> rq = \<lparr>ub_range = g,
                         ub_top = Some \<lparr>style = NONE, color = None, width = None\<rparr>,
                         ub_bottom = None, ub_left = None, ub_right = None,
                         ub_innerHorizontal = None, ub_innerVertical = None\<rparr>)"
  unfolding updateBordersHandler_def using assms
  by (simp add: Let_def convertBorder_id noBorders_def)

theorem borders_edges_witness:
  "\<exists>rq. fst (updateBordersHandler (specHelpers [(''Sheet1'', 0)]) (okClient \<lparr>sheets = None\<rparr>)
               \<lparr>bo_spreadsheetId = ''doc'', bo_range = ''Sheet1!A1:B2'',
                bo_borders = noBorders\<lparr>in_top :=
                  Some \<lparr>style = NONE, color = None, width = None\<rparr>\<rparr>\<rparr>) =
           [BatchUpdate ''doc'' [UpdateBorders rq]]
        \<and> rq = \<lparr>ub_range = \<lparr>sheetId = Some 0, startRowIndex = Some 0, endRowIndex = Some 1,
                              startColumnIndex = Some 0, endColumnIndex = Some 1\<rparr>,
                 ub_top = Some \<lparr>style = NONE, color = None, width = None\<rparr>,
                 ub_bottom = None, ub_left = None, ub_right = None,
                 ub_innerHorizontal = None, ub_innerVertical = None\<rparr>"
  using borders_edges
    [of "specHelpers [(''Sheet1'', 0)]"
        "\<lparr>bo_spreadsheetId = ''doc'', bo_range = ''Sheet1!A1:B2'',
          bo_borders = noBorders\<lparr>in_top :=
            Some \<lparr>style = NONE, color = None, width = None\<rparr>\<rparr>\<rparr>"
        "Some ''Sheet1''" "''A1:B2''" 0
        "\<lparr>sheetId = Some 0, startRowIndex = Some 0, endRowIndex = Some 1,
          startColumnIndex = Some 0, endColumnIndex = Some 1\<rparr>"
        "okClient \<lparr>sheets = None\<rparr>"]
  by (simp add: extract_examples resolve_example parse_examples)

section \<open>Chart creation\<close>

lemma columnARange_example: "columnARange ''B2:B10'' = Some ''A2:A10''"
  by (simp add: columnARange_def matchRect_def isUpperAZ_def isDigit_def Let_def)

lemma columnARange_rect:
  assumes "l1 \<noteq> []" "list_all isUpperAZ l1" "d1 \<noteq> []" "list_all isDigit d1"
    and "l2 \<noteq> []" "list_all isUpperAZ l2" "d2 \<noteq> []" "list_all isDigit d2"
  shows "columnARange (l1 @ d1 @ '':'' @ l2 @ d2) = Some (''A'' @ d1 @ '':A'' @ d2)"
proof -
  have m: "matchRect (l1 @ d1 @ CHR '':'' # l2 @ d2) = Some (l1, d1, l2, d2, [])"
    using matchRect_exact[OF assms, of "[]"] by simp
  obtain c cs where s: "l1 @ d1 @ CHR '':'' # l2 @ d2 = c # cs"
    using assms(1) by (cases l1) auto
  have "regexSearch matchRect (l1 @ d1 @ CHR '':'' # l2 @ d2) = Some (l1, d1, l2, d2, [])"
    using m unfolding s by simp
  then show ?thesis by (simp add: columnARange_def)
qed

text \<open>
  Without reference to the domain range: a pie chart over one fixed rectangle gets as
  domain column A of the series' sheet over the series' rows.
\<close>

lemma pie_auto_domain:
  assumes "cc_chartType inp = ''PIE''"
    and "cc_series inp = s # others"
    and "extractSheetName h (sourceRange s) = Inr (sn, l1 @ d1 @ '':'' @ l2 @ d2)"
    and "l1 \<noteq> []" "list_all isUpperAZ l1" "d1 \<noteq> []" "list_all isDigit d1"
    and "l2 \<noteq> []" "list_all isUpperAZ l2" "d2 \<noteq> []" "list_all isDigit d2"
    and "resolveOn h (cc_spreadsheetId inp) sn
           (in_sheetId (in_anchorCell (in_overlayPosition (cc_position inp)))) = Inr sid"
    and "parseRange h (l1 @ d1 @ '':'' @ l2 @ d2) sid = Inr g"
    and "parseRange h (''A'' @ d1 @ '':A'' @ d2) sid = Inr dg"
  shows "\<exists>sp p. buildChartSpec h inp = Inr sp \<and> pieChart sp = Some p
            \<and> pie_series p = Some \<lparr>sources = Some [g]\<rparr>
            \<and> pie_domain p = Some \<lparr>sources = Some [dg]\<rparr>"
  using columnARange_rect[OF assms(4-11)] assms(1-3,12-14)
  by (auto simp: buildChartSpec_def Let_def)

text \<open>The pie branch never reads the domain range of the input.\<close>

lemma pie_spec_independent_of_domainRange:
  "cc_chartType inp = ''PIE'' \<Longrightarrow>
     buildChartSpec h (inp\<lparr>cc_domainRange := d\<rparr>) = buildChartSpec h inp"
  by (simp add: buildChartSpec_def Let_def
      cong: list.case_cong sum.case_cong prod.case_cong option.case_cong)

text \<open>
  Claim C1. The claim has two parts: a pie chart over the one series \<open>Sheet1!B2:B10\<close>
  gets the domain \<open>Sheet1!A2:A10\<close>, and an explicit domain range in the input is used
  instead of the derived one. The handler evaluated at the pie chart over
  \<open>Sheet1!B2:B10\<close> with the explicit domain range \<open>Sheet1!C2:C10\<close>: the \<open>addChart\<close>
  request has the domain column A, rows 2 to 10, and not the region of \<open>C2:C10\<close>.
\<close>

theorem pie_chart_ignores_domainRange:
  "fst (handleCreateChart (specHelpers [(''Sheet1'', 0)]) (okClient \<lparr>sheets = None\<rparr>)
          (examplePie\<lparr>cc_domainRange := Some ''Sheet1!C2:C10''\<rparr>)) =
     [BatchUpdate ''doc''
        [AddChart
           (emptySpec\<lparr>pieChart := Some
              \<lparr>pie_legendPosition = Some ''BOTTOM_LEGEND'',
               pie_domain = Some \<lparr>sources = Some [exampleRange 0]\<rparr>,
               pie_series = Some \<lparr>sources = Some [exampleRange 1]\<rparr>,
               pie_other = []\<rparr>\<rparr>)
           exampleAnchor]]
   \<and> parseRangeSpec ''C2:C10'' 0 = Inr (exampleRange 2)
   \<and> exampleRange 2 \<noteq> exampleRange 0"
  by (simp add: handleCreateChart_def buildChartSpec_def examplePie_def Let_def
      extract_examples resolve_example parse_examples columnARange_example
      resolveOn_def truthy_def createLegendPosition_def emptySpec_def exampleRange_def)

text \<open>The legend token of chart creation: a token without the suffix gets it.\<close>

lemma create_legend_normalised:
  assumes "pos \<noteq> []" "\<not> endsWith pos ''_LEGEND''"
  shows "createLegendPosition (Some \<lparr>lg_position = Some pos\<rparr>) = pos @ ''_LEGEND''"
proof -
  have "pos \<noteq> ''NO_LEGEND''" using assms(2) by (auto simp: endsWith_def)
  then show ?thesis using assms by (simp add: createLegendPosition_def truthy_def strOr_def)
qed

section \<open>Chart update\<close>

lemma find_example_chart: "findChart exampleContent 7 = Some exampleChart"
  by (simp add: findChart_def exampleContent_def orElse_def exampleChart_def)

text \<open>
  Claim C9. The claim is that both chart commands append \<open>_LEGEND\<close> to a legend token
  that lacks it. Chart creation does; the update handler evaluated at the legend position
  \<open>RIGHT\<close> for an existing column chart sends the token as it came, while
  chart creation turns the same token into \<open>RIGHT_LEGEND\<close>.
\<close>

theorem update_chart_legend_unsuffixed:
  "fst (handleUpdateChart (okClient exampleContent)
          ((updateOf 7)\<lparr>uc_legend := Some \<lparr>lg_position = Some ''RIGHT''\<rparr>\<rparr>)) =
     [SpreadsheetsGet ''doc'',
      BatchUpdate ''doc''
        [UpdateEmbeddedObjectPosition 7 (Some examplePosition) ''position'',
         UpdateChartSpec 7
           (exampleSpec\<lparr>basicChart := Some (exampleBasic\<lparr>legendPosition := Some ''RIGHT''\<rparr>)\<rparr>)]]
   \<and> createLegendPosition (Some \<lparr>lg_position = Some ''RIGHT''\<rparr>) = ''RIGHT_LEGEND''"
  by (simp add: handleUpdateChart_def okClient_def find_example_chart updateOf_def Let_def
      updatedSpec_def applyScalars_def exampleChart_def exampleSpec_def emptySpec_def
      applyChartType_def applyLegend_def applySeries_def truthy_def orElse_def
      updateLegendPosition_def strOr_def createLegendPosition_def endsWith_def)







end
